theory Spec2Isabelle
  imports Main "HOL-Library.AList"
begin

section \<open>JavaScript values\<close>

text \<open>
  The handlers of \<^verbatim>\<open>electron/main/ipc-handlers.ts\<close> pass around values whose static
  type is \<^verbatim>\<open>unknown\<close>: thrown errors, event payloads, RPC results, parsed JSON. They
  are modelled by one datatype. A string is the Isabelle string of its UTF-8 bytes; an
  unpaired surrogate, which UTF-8 proper does not encode, is held as the three bytes of
  its code point (ED, then A0 to BF, then 80 to BF). Numbers are the integers (ports,
  exit codes, versions), and \<open>JInfinity\<close> stands for the two infinities, which
  \<^verbatim>\<open>JSON.parse\<close> reads from a literal beyond the range of a double (the flag is set for
  the negative one). An \<^verbatim>\<open>Error\<close> object carries its \<^verbatim>\<open>name\<close> and its \<^verbatim>\<open>message\<close>; a
  plain object is the list of its own properties, in insertion order (the model does not
  move integer-like property names to the front, as the enumeration of JavaScript does).
\<close>

datatype jsval =
    JUndefined
  | JNull
  | JBool bool
  | JNum int
  | JInfinity bool
  | JStr string
  | JError string string
  | JArr "jsval list"
  | JObj "(string \<times> jsval) list"

text \<open>A call either throws a value (\<open>Inl\<close>) or returns one (\<open>Inr\<close>); awaiting a
  rejected promise inside \<^verbatim>\<open>try\<close> is a throw.\<close>

type_synonym 'a outcome = "jsval + 'a"

subsection \<open>Number to string\<close>

definition digit_char :: "nat \<Rightarrow> char" where
  "digit_char d = ''0123456789'' ! d"

fun digits :: "nat \<Rightarrow> string" where
  "digits n = (if n < 10 then [digit_char n] else digits (n div 10) @ [digit_char (n mod 10)])"

declare digits.simps [simp del]

definition show_int :: "int \<Rightarrow> string" where
  "show_int i = (if i < 0 then CHR ''-'' # digits (nat (- i)) else digits (nat i))"

subsection \<open>\<^verbatim>\<open>String(value)\<close>\<close>

fun join :: "string \<Rightarrow> string list \<Rightarrow> string" where
  "join sep [] = []"
| "join sep [x] = x"
| "join sep (x # y # ys) = x @ sep @ join sep (y # ys)"

text \<open>\<^verbatim>\<open>Error.prototype.toString\<close>: the name, the message, or both joined by a colon.
  An array joins its elements with commas, \<^verbatim>\<open>null\<close> and \<^verbatim>\<open>undefined\<close> elements
  printing as nothing; a plain object prints as \<^verbatim>\<open>[object Object]\<close>.\<close>

fun String :: "jsval \<Rightarrow> string" where
  "String JUndefined = ''undefined''"
| "String JNull = ''null''"
| "String (JBool b) = (if b then ''true'' else ''false'')"
| "String (JNum n) = show_int n"
| "String (JInfinity negative) = (if negative then ''-Infinity'' else ''Infinity'')"
| "String (JStr s) = s"
| "String (JError name msg) =
     (if name = [] then msg else if msg = [] then name else name @ '': '' @ msg)"
| "String (JArr xs) =
     join '','' (map (\<lambda>x. if x = JUndefined \<or> x = JNull then [] else String x) xs)"
| "String (JObj kvs) = ''[object Object]''"

subsection \<open>Truthiness and property reads\<close>

fun truthy :: "jsval \<Rightarrow> bool" where
  "truthy JUndefined = False"
| "truthy JNull = False"
| "truthy (JBool b) = b"
| "truthy (JNum n) = (n \<noteq> 0)"
| "truthy (JInfinity negative) = True"
| "truthy (JStr s) = (s \<noteq> [])"
| "truthy (JError name msg) = True"
| "truthy (JArr xs) = True"
| "truthy (JObj kvs) = True"

definition TypeError_read :: "string \<Rightarrow> string \<Rightarrow> jsval" where
  "TypeError_read what key =
     JError ''TypeError''
       (''Cannot read properties of '' @ what @ '' (reading '' @ [CHR 0x27] @ key @ [CHR 0x27] @ '')'')"

text \<open>The \<^verbatim>\<open>length\<close> of a string counts UTF-16 code units: one for each character of
  one to three bytes, two for each character of four bytes.\<close>

definition utf16_length :: "string \<Rightarrow> nat" where
  "utf16_length s =
     length (filter (\<lambda>c. (of_char c :: nat) < 128 \<or> 192 \<le> (of_char c :: nat)) s)
     + length (filter (\<lambda>c. 240 \<le> (of_char c :: nat)) s)"

text \<open>\<^verbatim>\<open>value.key\<close> for a key that is neither an array index nor the name of an
  inherited property: a read on \<^verbatim>\<open>undefined\<close> or \<^verbatim>\<open>null\<close> throws a TypeError, a missing
  property reads as \<^verbatim>\<open>undefined\<close>.\<close>

fun get_member :: "jsval \<Rightarrow> string \<Rightarrow> jsval outcome" where
  "get_member JUndefined key = Inl (TypeError_read ''undefined'' key)"
| "get_member JNull key = Inl (TypeError_read ''null'' key)"
| "get_member (JObj kvs) key = Inr (case map_of kvs key of Some v \<Rightarrow> v | None \<Rightarrow> JUndefined)"
| "get_member (JError name msg) key =
     Inr (if key = ''message'' then JStr msg else if key = ''name'' then JStr name else JUndefined)"
| "get_member (JArr xs) key =
     Inr (if key = ''length'' then JNum (int (length xs)) else JUndefined)"
| "get_member (JStr s) key =
     Inr (if key = ''length'' then JNum (int (utf16_length s)) else JUndefined)"
| "get_member (JBool b) key = Inr JUndefined"
| "get_member (JNum n) key = Inr JUndefined"
| "get_member (JInfinity negative) key = Inr JUndefined"

text \<open>\<^verbatim>\<open>!x || typeof x !== 'object'\<close> is false exactly for objects and arrays.\<close>

fun is_object :: "jsval \<Rightarrow> bool" where
  "is_object (JObj kvs) = True"
| "is_object (JArr xs) = True"
| "is_object v = False"

text \<open>An own property of an object, by a name that no prototype defines: \<^verbatim>\<open>undefined\<close>
  where the object has no such property.\<close>

definition own :: "(string \<times> jsval) list \<Rightarrow> string \<Rightarrow> jsval" where
  "own kvs key = (case map_of kvs key of Some v \<Rightarrow> v | None \<Rightarrow> JUndefined)"

subsection \<open>JSON files\<close>

text \<open>
  A file either holds text that cannot be read or that \<^verbatim>\<open>JSON.parse\<close> rejects, or holds
  a JSON value. \<open>json_written\<close> is the value \<^verbatim>\<open>JSON.parse\<close> reads back from the text
  \<^verbatim>\<open>JSON.stringify\<close> writes: an infinity is written as \<^verbatim>\<open>null\<close>, an \<^verbatim>\<open>undefined\<close>
  property is left out, an \<^verbatim>\<open>undefined\<close> array element is written as \<^verbatim>\<open>null\<close>, an
  \<^verbatim>\<open>Error\<close> has no enumerable property.
\<close>

datatype json_file = Garbage | Content jsval

fun json_written :: "jsval \<Rightarrow> jsval" where
  "json_written JUndefined = JNull"
| "json_written JNull = JNull"
| "json_written (JBool b) = JBool b"
| "json_written (JNum n) = JNum n"
| "json_written (JInfinity negative) = JNull"
| "json_written (JStr s) = JStr s"
| "json_written (JError name msg) = JObj []"
| "json_written (JArr xs) = JArr (map json_written xs)"
| "json_written (JObj kvs) =
     JObj (map (\<lambda>kv. (fst kv, json_written (snd kv))) (filter (\<lambda>kv. snd kv \<noteq> JUndefined) kvs))"

text \<open>The values a JSON text denotes with numbers in the range of a double: they are
  read back as they were written.\<close>

fun is_json :: "jsval \<Rightarrow> bool" where
  "is_json JUndefined = False"
| "is_json (JInfinity negative) = False"
| "is_json (JError name msg) = False"
| "is_json (JArr xs) = list_all is_json xs"
| "is_json (JObj kvs) = list_all (\<lambda>kv. is_json (snd kv)) kvs"
| "is_json v = True"

section \<open>The gateway manager as the handlers see it\<close>

text \<open>
  Modelled from the spec: the class \<^verbatim>\<open>GatewayManager\<close> (\<^verbatim>\<open>electron/gateway/manager\<close>) is
  imported by the handlers but is not among the sources. Its status snapshot follows
  section 3 of the specification, \<^verbatim>\<open>{ state, port: integer?, error: string? }\<close>; the
  four state names are the ones the renderer compares against.
\<close>

datatype gateway_state = Stopped | Starting | Running | Error

record gateway_status =
  state :: gateway_state
  port :: "int option"
  error :: "string option"

definition state_name :: "gateway_state \<Rightarrow> string" where
  "state_name s = (case s of Stopped \<Rightarrow> ''stopped'' | Starting \<Rightarrow> ''starting''
                   | Running \<Rightarrow> ''running'' | Error \<Rightarrow> ''error'')"

definition status_value :: "gateway_status \<Rightarrow> jsval" where
  "status_value st =
     JObj ([(''state'', JStr (state_name (state st)))]
           @ (case port st of None \<Rightarrow> [] | Some p \<Rightarrow> [(''port'', JNum p)])
           @ (case error st of None \<Rightarrow> [] | Some e \<Rightarrow> [(''error'', JStr e)]))"

section \<open>Gateway IPC handlers (\<^verbatim>\<open>registerGatewayHandlers\<close>)\<close>

text \<open>The reply of a \<^verbatim>\<open>catch\<close> branch: \<^verbatim>\<open>{ success: false, error: String(error) }\<close>.\<close>

definition failure :: "jsval \<Rightarrow> jsval" where
  "failure e = JObj [(''success'', JBool False), (''error'', JStr (String e))]"

text \<open>
  Each handler below takes, in place of \<^verbatim>\<open>gatewayManager\<close>, what the one method it calls
  does at that call: it throws (or its promise rejects), \<open>Inl\<close>, or it yields a value,
  \<open>Inr\<close>. The handler's own result is an outcome too: \<open>Inl\<close> when the exception leaves
  the handler, \<open>Inr\<close> for the value it returns to the renderer.
\<close>

definition handle_gateway_status :: "gateway_status outcome \<Rightarrow> jsval outcome" where
  "handle_gateway_status getStatus =
     (case getStatus of Inl e \<Rightarrow> Inl e | Inr st \<Rightarrow> Inr (status_value st))"

definition handle_gateway_isConnected :: "bool outcome \<Rightarrow> jsval outcome" where
  "handle_gateway_isConnected isConnected =
     (case isConnected of Inl e \<Rightarrow> Inl e | Inr b \<Rightarrow> Inr (JBool b))"

definition handle_gateway_start :: "unit outcome \<Rightarrow> jsval outcome" where
  "handle_gateway_start start =
     (case start of
        Inr u \<Rightarrow> Inr (JObj [(''success'', JBool True)])
      | Inl e \<Rightarrow> Inr (failure e))"

definition handle_gateway_stop :: "unit outcome \<Rightarrow> jsval outcome" where
  "handle_gateway_stop stop =
     (case stop of
        Inr u \<Rightarrow> Inr (JObj [(''success'', JBool True)])
      | Inl e \<Rightarrow> Inr (failure e))"

definition handle_gateway_restart :: "unit outcome \<Rightarrow> jsval outcome" where
  "handle_gateway_restart restart =
     (case restart of
        Inr u \<Rightarrow> Inr (JObj [(''success'', JBool True)])
      | Inl e \<Rightarrow> Inr (failure e))"

definition handle_gateway_rpc ::
  "(string \<Rightarrow> jsval \<Rightarrow> jsval \<Rightarrow> jsval outcome) \<Rightarrow> string \<Rightarrow> jsval \<Rightarrow> jsval \<Rightarrow> jsval outcome" where
  "handle_gateway_rpc rpc method params timeoutMs =
     (case rpc method params timeoutMs of
        Inr result \<Rightarrow> Inr (JObj [(''success'', JBool True), (''result'', result)])
      | Inl e \<Rightarrow> Inr (failure e))"

subsection \<open>\<^verbatim>\<open>encodeURIComponent\<close>\<close>

text \<open>The characters \<^verbatim>\<open>encodeURIComponent\<close> leaves alone: letters, digits and
  \<^verbatim>\<open>- _ . ! ~ * ' ( )\<close>. Every other character is written as the percent-escaped bytes
  of its UTF-8 encoding. A string with an unpaired surrogate has no UTF-8 encoding:
  \<^verbatim>\<open>encodeURIComponent\<close> throws a URIError.\<close>

definition uri_unreserved :: "char \<Rightarrow> bool" where
  "uri_unreserved c =
     (c \<in> set ''ABCDEFGHIJKLMNOPQRSTUVWXYZabcdefghijklmnopqrstuvwxyz0123456789-_.!~*()''
      \<or> c = CHR 0x27)"

definition hex_digit :: "nat \<Rightarrow> char" where
  "hex_digit d = ''0123456789ABCDEF'' ! d"

definition percent :: "nat \<Rightarrow> string" where
  "percent b = [CHR ''%'', hex_digit (b div 16), hex_digit (b mod 16)]"

definition encode_char :: "char \<Rightarrow> string" where
  "encode_char c = (if uri_unreserved c then [c] else percent (of_char c))"

fun has_unpaired_surrogate :: "string \<Rightarrow> bool" where
  "has_unpaired_surrogate (a # b # cs) =
     (((of_char a :: nat) = 237 \<and> 160 \<le> (of_char b :: nat) \<and> (of_char b :: nat) \<le> 191)
      \<or> has_unpaired_surrogate (b # cs))"
| "has_unpaired_surrogate cs = False"

definition URIError :: jsval where
  "URIError = JError ''URIError'' ''URI malformed''"

definition encodeURIComponent :: "string \<Rightarrow> string outcome" where
  "encodeURIComponent s =
     (if has_unpaired_surrogate s then Inl URIError else Inr (concat (map encode_char s)))"

text \<open>The characters that can stand in a query parameter without ending or splitting
  it: the unreserved ones, the percent sign and the upper-case hexadecimal digits.\<close>

definition uri_safe :: "char \<Rightarrow> bool" where
  "uri_safe c = (uri_unreserved c \<or> c = CHR ''%'' \<or> c \<in> set ''0123456789ABCDEF'')"

subsection \<open>The Control UI accessor and the health check\<close>

text \<open>\<^verbatim>\<open>getSetting\<close> (\<^verbatim>\<open>electron/utils/store\<close>) is not among the sources; the handler
  takes the outcome of reading the setting \<^verbatim>\<open>gatewayToken\<close>. The port is
  \<^verbatim>\<open>status.port || 18789\<close>: a missing port and the port 0 both give the default.\<close>

definition handle_gateway_getControlUiUrl ::
  "gateway_status outcome \<Rightarrow> string outcome \<Rightarrow> jsval outcome" where
  "handle_gateway_getControlUiUrl getStatus getSetting_gatewayToken =
     (case getStatus of
        Inl e \<Rightarrow> Inr (failure e)
      | Inr status \<Rightarrow>
          (case getSetting_gatewayToken of
             Inl e \<Rightarrow> Inr (failure e)
           | Inr token \<Rightarrow>
               (let p = (case port status of
                           Some q \<Rightarrow> if q \<noteq> 0 then q else 18789
                         | None \<Rightarrow> 18789)
                in case encodeURIComponent token of
                     Inl e \<Rightarrow> Inr (failure e)
                   | Inr encoded \<Rightarrow>
                       (let url = ''http://127.0.0.1:'' @ show_int p @ ''/?token='' @ encoded
                        in Inr (JObj [(''success'', JBool True), (''url'', JStr url),
                                      (''port'', JNum p), (''token'', JStr token)])))))"

text \<open>\<^verbatim>\<open>{ success: true, ...health }\<close>: the properties of \<^verbatim>\<open>health\<close> are written after
  \<^verbatim>\<open>success\<close>, a property of the same name replacing the earlier value in place.\<close>

definition spread :: "(string \<times> jsval) list \<Rightarrow> (string \<times> jsval) list \<Rightarrow> (string \<times> jsval) list" where
  "spread base props = fold (\<lambda>(k, v) acc. AList.update k v acc) props base"

definition handle_gateway_health :: "(string \<times> jsval) list outcome \<Rightarrow> jsval outcome" where
  "handle_gateway_health checkHealth =
     (case checkHealth of
        Inr health \<Rightarrow> Inr (JObj (spread [(''success'', JBool True)] health))
      | Inl e \<Rightarrow> Inr (JObj [(''success'', JBool False), (''ok'', JBool False),
                            (''error'', JStr (String e))]))"

subsection \<open>Forwarding gateway events to the renderer\<close>

text \<open>
  \<^verbatim>\<open>registerGatewayHandlers\<close> subscribes seven listeners on the manager. A listener
  receives the event's payload and, unless the main window is destroyed, calls
  \<^verbatim>\<open>mainWindow.webContents.send(channel, value)\<close>; the model returns the list of these
  sends. The first argument of a listener is \<^verbatim>\<open>mainWindow.isDestroyed()\<close>.
\<close>

type_synonym send = "string \<times> jsval"

type_synonym listener = "bool \<Rightarrow> jsval \<Rightarrow> send list outcome"

definition gateway_event_listeners :: "(string \<times> listener) list" where
  "gateway_event_listeners =
     [(''status'', \<lambda>destroyed status.
         Inr (if \<not> destroyed then [(''gateway:status-changed'', status)] else [])),
      (''message'', \<lambda>destroyed message.
         Inr (if \<not> destroyed then [(''gateway:message'', message)] else [])),
      (''notification'', \<lambda>destroyed notification.
         Inr (if \<not> destroyed then [(''gateway:notification'', notification)] else [])),
      (''channel:status'', \<lambda>destroyed data.
         Inr (if \<not> destroyed then [(''gateway:channel-status'', data)] else [])),
      (''chat:message'', \<lambda>destroyed data.
         Inr (if \<not> destroyed then [(''gateway:chat-message'', data)] else [])),
      (''exit'', \<lambda>destroyed code.
         Inr (if \<not> destroyed then [(''gateway:exit'', code)] else [])),
      (''error'', \<lambda>destroyed err.
         if \<not> destroyed
         then (case get_member err ''message'' of
                 Inl e \<Rightarrow> Inl e
               | Inr m \<Rightarrow> Inr [(''gateway:error'', m)])
         else Inr [])]"

text \<open>\<^verbatim>\<open>EventEmitter.emit(name, payload)\<close>: the listeners registered under the name run
  in registration order; an exception of a listener leaves \<^verbatim>\<open>emit\<close>.\<close>

fun emit :: "(string \<times> listener) list \<Rightarrow> bool \<Rightarrow> string \<Rightarrow> jsval \<Rightarrow> send list outcome" where
  "emit [] destroyed name payload = Inr []"
| "emit ((n, l) # ls) destroyed name payload =
     (if n = name
      then (case l destroyed payload of
              Inl e \<Rightarrow> Inl e
            | Inr out \<Rightarrow>
                (case emit ls destroyed name payload of
                   Inl e \<Rightarrow> Inl e
                 | Inr rest \<Rightarrow> Inr (out @ rest)))
      else emit ls destroyed name payload)"

section \<open>Shell IPC handlers (\<^verbatim>\<open>registerShellHandlers\<close>)\<close>

text \<open>The three handlers call Electron's \<^verbatim>\<open>shell\<close> with no \<^verbatim>\<open>try\<close> around the
  call; each takes the outcome of that call.\<close>

definition handle_shell_openExternal :: "unit outcome \<Rightarrow> jsval outcome" where
  "handle_shell_openExternal openExternal =
     (case openExternal of Inl e \<Rightarrow> Inl e | Inr u \<Rightarrow> Inr JUndefined)"

definition handle_shell_showItemInFolder :: "unit outcome \<Rightarrow> jsval outcome" where
  "handle_shell_showItemInFolder showItemInFolder =
     (case showItemInFolder of Inl e \<Rightarrow> Inl e | Inr u \<Rightarrow> Inr JUndefined)"

definition handle_shell_openPath :: "string outcome \<Rightarrow> jsval outcome" where
  "handle_shell_openPath openPath =
     (case openPath of Inl e \<Rightarrow> Inl e | Inr s \<Rightarrow> Inr (JStr s))"

section \<open>OpenClaw auth profiles (\<^verbatim>\<open>electron/utils/openclaw-auth.ts\<close>)\<close>

text \<open>
  The source types its records by casts, so a store is whatever JSON value the file
  holds, and a record lookup \<^verbatim>\<open>record[name]\<close> by a computed name sees inherited
  properties too. \<open>OBJECT_PROTOTYPE_KEYS\<close> are the names \<^verbatim>\<open>Object.prototype\<close> defines,
  \<open>ARRAY_PROTOTYPE_KEYS\<close> the names \<^verbatim>\<open>Array.prototype\<close> adds for an array (as in V8).
  The source is a module, hence strict code: an assignment to a property of a
  primitive value throws a TypeError.
\<close>

definition OBJECT_PROTOTYPE_KEYS :: "string list" where
  "OBJECT_PROTOTYPE_KEYS =
     [''constructor'', ''__defineGetter__'', ''__defineSetter__'', ''hasOwnProperty'',
      ''__lookupGetter__'', ''__lookupSetter__'', ''isPrototypeOf'', ''propertyIsEnumerable'',
      ''toString'', ''valueOf'', ''__proto__'', ''toLocaleString'']"

definition ARRAY_PROTOTYPE_KEYS :: "string list" where
  "ARRAY_PROTOTYPE_KEYS =
     [''at'', ''concat'', ''copyWithin'', ''fill'', ''find'', ''findIndex'', ''findLast'',
      ''findLastIndex'', ''lastIndexOf'', ''pop'', ''push'', ''reverse'', ''shift'', ''unshift'',
      ''slice'', ''sort'', ''splice'', ''includes'', ''indexOf'', ''join'', ''keys'', ''entries'',
      ''values'', ''forEach'', ''filter'', ''flat'', ''flatMap'', ''map'', ''every'', ''some'',
      ''reduce'', ''reduceRight'', ''toReversed'', ''toSorted'', ''toSpliced'', ''with'']"

definition AUTH_STORE_VERSION :: int where
  "AUTH_STORE_VERSION = 1"

definition AUTH_PROFILE_FILENAME :: string where
  "AUTH_PROFILE_FILENAME = ''auth-profiles.json''"


text \<open>The disk maps a path to the file there, if any; paths are written from the home
  directory.\<close>

type_synonym disk = "string \<Rightarrow> json_file option"

definition getAuthProfilesPath :: "string \<Rightarrow> string" where
  "getAuthProfilesPath agentId =
     ''~/.openclaw/agents/'' @ agentId @ ''/agent/'' @ AUTH_PROFILE_FILENAME"

definition fresh_store :: "(string \<times> jsval) list" where
  "fresh_store = [(''version'', JNum AUTH_STORE_VERSION), (''profiles'', JObj [])]"

text \<open>
  \<^verbatim>\<open>readAuthProfiles\<close> returns the parsed object when its \<^verbatim>\<open>version\<close> is truthy and its
  \<^verbatim>\<open>profiles\<close> is an object or an array, and a fresh store otherwise. A parsed value
  that is not an object has no \<^verbatim>\<open>version\<close> (on \<^verbatim>\<open>null\<close> the read throws inside the
  \<^verbatim>\<open>try\<close>), and so does a file that cannot be read or parsed. The result is the list of
  the store's own properties.
\<close>

definition readAuthProfiles :: "string \<Rightarrow> disk \<Rightarrow> (string \<times> jsval) list" where
  "readAuthProfiles agentId d =
     (case d (getAuthProfilesPath agentId) of
        None \<Rightarrow> fresh_store
      | Some Garbage \<Rightarrow> fresh_store
      | Some (Content data) \<Rightarrow>
          (case data of
             JObj kvs \<Rightarrow>
               if truthy (own kvs ''version'') \<and> truthy (own kvs ''profiles'')
                  \<and> is_object (own kvs ''profiles'')
               then kvs else fresh_store
           | _ \<Rightarrow> fresh_store))"

text \<open>What \<^verbatim>\<open>saveProviderKeyToOpenClaw\<close> can throw: a TypeError, a RangeError, or the
  error of a failed write (\<^verbatim>\<open>mkdirSync\<close> or \<^verbatim>\<open>writeFileSync\<close>), which the environment
  decides.\<close>

datatype save_failure = ThrowsTypeError | ThrowsRangeError | WriteFails jsval

definition writeAuthProfiles ::
  "jsval option \<Rightarrow> (string \<times> jsval) list \<Rightarrow> string \<Rightarrow> disk \<Rightarrow> (save_failure + unit) \<times> disk" where
  "writeAuthProfiles write_error store agentId d =
     (case write_error of
        Some e \<Rightarrow> (Inl (WriteFails e), d)
      | None \<Rightarrow>
          (Inr (), d(getAuthProfilesPath agentId := Some (Content (json_written (JObj store))))))"

text \<open>\<^verbatim>\<open>store.profiles[profileId] = entry\<close>, as the written file shows it. The profile id
  ends in \<^verbatim>\<open>:default\<close>, so it is no array index and no inherited name; on an array the
  assignment makes a named property, which \<^verbatim>\<open>JSON.stringify\<close> does not write.\<close>

fun set_profile :: "jsval \<Rightarrow> string \<Rightarrow> jsval \<Rightarrow> jsval" where
  "set_profile (JObj pk) profileId entry = JObj (AList.update profileId entry pk)"
| "set_profile p profileId entry = p"

text \<open>An array index is a canonical decimal numeral below \<open>2^32 - 1\<close>.\<close>

definition is_digit :: "char \<Rightarrow> bool" where
  "is_digit c = (48 \<le> (of_char c :: nat) \<and> (of_char c :: nat) \<le> 57)"

definition decimal_value :: "string \<Rightarrow> nat" where
  "decimal_value s = foldl (\<lambda>n c. 10 * n + ((of_char c :: nat) - 48)) 0 s"

definition array_index :: "string \<Rightarrow> nat option" where
  "array_index s =
     (if s \<noteq> [] \<and> list_all is_digit s \<and> (s = ''0'' \<or> hd s \<noteq> CHR ''0'')
         \<and> decimal_value s < 4294967295
      then Some (decimal_value s) else None)"

text \<open>\<^verbatim>\<open>s.includes(p)\<close> on strings: \<open>p\<close> occurs in \<open>s\<close>.\<close>

fun includes_string :: "string \<Rightarrow> string \<Rightarrow> bool" where
  "includes_string [] p = (p = [])"
| "includes_string (c # cs) p = (take (length p) (c # cs) = p \<or> includes_string cs p)"

text \<open>
  The two statements
  \<^verbatim>\<open>if (!x) x = []; if (!x.includes(profileId)) x.push(profileId);\<close>
  for \<open>x\<close> an own property or an array element holding \<open>v\<close>: the value \<open>x\<close> holds
  afterwards. A falsy value is replaced by a list of the id; an array gains the id
  unless it includes it; a string that includes the id stays, and one that does not
  has no \<^verbatim>\<open>push\<close>; any other value has no \<^verbatim>\<open>includes\<close>.
\<close>

definition include_profile :: "jsval \<Rightarrow> string \<Rightarrow> save_failure + jsval" where
  "include_profile v profileId =
     (if \<not> truthy v then Inr (JArr [JStr profileId])
      else
        (case v of
           JArr ids \<Rightarrow> Inr (if JStr profileId \<in> set ids then v else JArr (ids @ [JStr profileId]))
         | JStr s \<Rightarrow> if includes_string s profileId then Inr v else Inl ThrowsTypeError
         | _ \<Rightarrow> Inl ThrowsTypeError))"

text \<open>
  The same two statements for \<open>x\<close> the property \<^verbatim>\<open>store.order[provider]\<close>, where
  \<^verbatim>\<open>store.order\<close> is the truthy value \<open>ord\<close>: the value \<^verbatim>\<open>store.order\<close> is written as
  afterwards. On an object, a name it does not own is inherited when \<^verbatim>\<open>Object.prototype\<close>
  defines it (a function, or the prototype itself: neither has \<^verbatim>\<open>includes\<close>) and
  new otherwise. On an array, an index reads an element, or extends the array (the
  holes are written as \<^verbatim>\<open>null\<close>); \<^verbatim>\<open>length\<close> reads a number; \<^verbatim>\<open>__proto__\<close> reads
  \<^verbatim>\<open>Array.prototype\<close>, an empty array of its own; an inherited name reads a function;
  any other name makes a named property, which is not written. A truthy primitive
  yields a value without \<^verbatim>\<open>includes\<close> or \<^verbatim>\<open>push\<close>, or refuses the assignment.
\<close>

definition add_to_order :: "jsval \<Rightarrow> string \<Rightarrow> string \<Rightarrow> save_failure + jsval" where
  "add_to_order ord prov profileId =
     (case ord of
        JObj ok \<Rightarrow>
          (case map_of ok prov of
             Some v \<Rightarrow>
               (case include_profile v profileId of
                  Inl err \<Rightarrow> Inl err
                | Inr v' \<Rightarrow> Inr (JObj (AList.update prov v' ok)))
           | None \<Rightarrow>
               if prov \<in> set OBJECT_PROTOTYPE_KEYS then Inl ThrowsTypeError
               else Inr (JObj (AList.update prov (JArr [JStr profileId]) ok)))
      | JArr xs \<Rightarrow>
          (case array_index prov of
             Some i \<Rightarrow>
               if i < length xs
               then (case include_profile (xs ! i) profileId of
                       Inl err \<Rightarrow> Inl err
                     | Inr v' \<Rightarrow> Inr (JArr (xs[i := v'])))
               else Inr (JArr (xs @ replicate (i - length xs) JNull @ [JArr [JStr profileId]]))
           | None \<Rightarrow>
               if prov = ''length'' then Inl ThrowsTypeError
               else if prov = ''__proto__'' then Inr (JArr xs)
               else if prov \<in> set ARRAY_PROTOTYPE_KEYS \<or> prov \<in> set OBJECT_PROTOTYPE_KEYS
               then Inl ThrowsTypeError
               else Inr (JArr xs))
      | _ \<Rightarrow> Inl ThrowsTypeError)"

text \<open>
  \<^verbatim>\<open>store.lastGood[provider] = profileId\<close>, where \<^verbatim>\<open>store.lastGood\<close> is the truthy value
  \<open>lg\<close>. On an object that does not own \<^verbatim>\<open>__proto__\<close> the assignment of a string to
  that name is ignored. On an array an index sets or adds an element, \<^verbatim>\<open>length\<close>
  throws a RangeError, and any other name is not written.
\<close>

definition set_last_good :: "jsval \<Rightarrow> string \<Rightarrow> string \<Rightarrow> save_failure + jsval" where
  "set_last_good lg prov profileId =
     (case lg of
        JObj lk \<Rightarrow>
          if prov = ''__proto__'' \<and> map_of lk prov = None then Inr (JObj lk)
          else Inr (JObj (AList.update prov (JStr profileId) lk))
      | JArr xs \<Rightarrow>
          (case array_index prov of
             Some i \<Rightarrow>
               Inr (JArr (if i < length xs then xs[i := JStr profileId]
                          else xs @ replicate (i - length xs) JNull @ [JStr profileId]))
           | None \<Rightarrow> if prov = ''length'' then Inl ThrowsRangeError else Inr (JArr xs))
      | _ \<Rightarrow> Inl ThrowsTypeError)"

text \<open>
  \<^verbatim>\<open>saveProviderKeyToOpenClaw\<close> returns nothing; the model returns whether it threw and
  the disk it leaves. \<open>write_error\<close> is the error of the write, if the write fails.
\<close>

definition saveProviderKeyToOpenClaw ::
  "jsval option \<Rightarrow> string \<Rightarrow> string \<Rightarrow> string \<Rightarrow> disk \<Rightarrow> (save_failure + unit) \<times> disk" where
  "saveProviderKeyToOpenClaw write_error prov apiKey agentId d =
     (let store = readAuthProfiles agentId d;
          profileId = prov @ '':default'';
          entry = JObj [(''type'', JStr ''api_key''), (''provider'', JStr prov),
                        (''key'', JStr apiKey)];
          store1 = AList.update ''profiles''
                     (set_profile (own store ''profiles'') profileId entry) store;
          store2 = (if \<not> truthy (own store1 ''order'')
                    then AList.update ''order'' (JObj []) store1 else store1)
      in case add_to_order (own store2 ''order'') prov profileId of
           Inl err \<Rightarrow> (Inl err, d)
         | Inr order' \<Rightarrow>
             (let store3 = AList.update ''order'' order' store2;
                  store4 = (if \<not> truthy (own store3 ''lastGood'')
                            then AList.update ''lastGood'' (JObj []) store3 else store3)
              in case set_last_good (own store4 ''lastGood'') prov profileId of
                   Inl err \<Rightarrow> (Inl err, d)
                 | Inr lastGood' \<Rightarrow>
                     writeAuthProfiles write_error
                       (AList.update ''lastGood'' lastGood' store4) agentId d))"

text \<open>What a reader of the auth profiles of an agent finds: the entry of a profile, the
  order list of a provider (empty where there is none) and its last good profile.\<close>

definition stored_profile :: "disk \<Rightarrow> string \<Rightarrow> string \<Rightarrow> jsval option" where
  "stored_profile d agentId profileId =
     (case own (readAuthProfiles agentId d) ''profiles'' of
        JObj pk \<Rightarrow> map_of pk profileId
      | _ \<Rightarrow> None)"

definition stored_order :: "disk \<Rightarrow> string \<Rightarrow> string \<Rightarrow> jsval list" where
  "stored_order d agentId prov =
     (case own (readAuthProfiles agentId d) ''order'' of
        JObj ok \<Rightarrow> (case map_of ok prov of Some (JArr ids) \<Rightarrow> ids | _ \<Rightarrow> [])
      | _ \<Rightarrow> [])"

definition stored_lastGood :: "disk \<Rightarrow> string \<Rightarrow> string \<Rightarrow> jsval option" where
  "stored_lastGood d agentId prov =
     (case own (readAuthProfiles agentId d) ''lastGood'' of
        JObj lk \<Rightarrow> map_of lk prov
      | _ \<Rightarrow> None)"

text \<open>
  A store of the declared type \<^verbatim>\<open>AuthProfilesStore\<close>, as far as a save for the provider
  reads it: a non-zero \<^verbatim>\<open>version\<close>, an object of \<^verbatim>\<open>profiles\<close>, no \<^verbatim>\<open>order\<close> or an object
  whose entry for the provider, if any, is an array, no \<^verbatim>\<open>lastGood\<close> or an object, and
  no number outside the range of a double. A file of the declared type is missing,
  unreadable, or holds such a store.
\<close>

definition typed_store :: "string \<Rightarrow> (string \<times> jsval) list \<Rightarrow> bool" where
  "typed_store prov kvs =
     (is_json (JObj kvs)
      \<and> (case map_of kvs ''version'' of Some (JNum n) \<Rightarrow> n \<noteq> 0 | _ \<Rightarrow> False)
      \<and> (case map_of kvs ''profiles'' of Some (JObj pk) \<Rightarrow> True | _ \<Rightarrow> False)
      \<and> (case map_of kvs ''order'' of
            None \<Rightarrow> True
          | Some (JObj ok) \<Rightarrow> (case map_of ok prov of None \<Rightarrow> True | Some (JArr ids) \<Rightarrow> True | _ \<Rightarrow> False)
          | _ \<Rightarrow> False)
      \<and> (case map_of kvs ''lastGood'' of None \<Rightarrow> True | Some (JObj lk) \<Rightarrow> True | _ \<Rightarrow> False))"

definition typed_file :: "string \<Rightarrow> json_file option \<Rightarrow> bool" where
  "typed_file prov f =
     (case f of
        None \<Rightarrow> True
      | Some Garbage \<Rightarrow> True
      | Some (Content v) \<Rightarrow> (case v of JObj kvs \<Rightarrow> typed_store prov kvs | _ \<Rightarrow> False))"

subsection \<open>The environment of the gateway process\<close>





subsection \<open>The handler \<^verbatim>\<open>provider:save\<close>\<close>



section \<open>API key validation (\<^verbatim>\<open>validateApiKeyWithProvider\<close>)\<close>

text \<open>
  \<^verbatim>\<open>String.prototype.trim\<close> removes white space and line terminators from both ends:
  the characters U+0009 to U+000D and U+0020 (one byte each), U+00A0 (two bytes), and
  U+1680, U+2000 to U+200A, U+2028, U+2029, U+202F, U+205F, U+3000 and U+FEFF (three
  bytes each). \<open>trim_end_rev\<close> works on the reversed string, so it meets the bytes of a
  character last byte first.
\<close>

definition is_space1 :: "char \<Rightarrow> bool" where
  "is_space1 a = ((of_char a :: nat) \<in> {9, 10, 11, 12, 13, 32})"

definition is_space2 :: "char \<Rightarrow> char \<Rightarrow> bool" where
  "is_space2 a b = ((of_char a :: nat) = 194 \<and> (of_char b :: nat) = 160)"

definition is_space3 :: "char \<Rightarrow> char \<Rightarrow> char \<Rightarrow> bool" where
  "is_space3 a b c =
     (((of_char a :: nat) = 225 \<and> (of_char b :: nat) = 154 \<and> (of_char c :: nat) = 128)
      \<or> ((of_char a :: nat) = 226 \<and> (of_char b :: nat) = 128
          \<and> ((128 \<le> (of_char c :: nat) \<and> (of_char c :: nat) \<le> 138)
              \<or> (of_char c :: nat) \<in> {168, 169, 175}))
      \<or> ((of_char a :: nat) = 226 \<and> (of_char b :: nat) = 129 \<and> (of_char c :: nat) = 159)
      \<or> ((of_char a :: nat) = 227 \<and> (of_char b :: nat) = 128 \<and> (of_char c :: nat) = 128)
      \<or> ((of_char a :: nat) = 239 \<and> (of_char b :: nat) = 187 \<and> (of_char c :: nat) = 191))"

fun trim_start :: "string \<Rightarrow> string" where
  "trim_start (a # b # c # cs) =
     (if is_space1 a then trim_start (b # c # cs)
      else if is_space2 a b then trim_start (c # cs)
      else if is_space3 a b c then trim_start cs
      else a # b # c # cs)"
| "trim_start [a, b] =
     (if is_space1 a then trim_start [b] else if is_space2 a b then [] else [a, b])"
| "trim_start [a] = (if is_space1 a then [] else [a])"
| "trim_start [] = []"

fun trim_end_rev :: "string \<Rightarrow> string" where
  "trim_end_rev (c # b # a # cs) =
     (if is_space1 c then trim_end_rev (b # a # cs)
      else if is_space2 b c then trim_end_rev (a # cs)
      else if is_space3 a b c then trim_end_rev cs
      else c # b # a # cs)"
| "trim_end_rev [c, b] =
     (if is_space1 c then trim_end_rev [b] else if is_space2 b c then [] else [c, b])"
| "trim_end_rev [c] = (if is_space1 c then [] else [c])"
| "trim_end_rev [] = []"

definition trim :: "string \<Rightarrow> string" where
  "trim s = rev (trim_end_rev (rev (trim_start s)))"

text \<open>\<^verbatim>\<open>error instanceof Error ? error.message : String(error)\<close>\<close>

fun error_message :: "jsval \<Rightarrow> string" where
  "error_message (JError name msg) = msg"
| "error_message e = String e"

text \<open>The four vendor validators send one HTTP request each; what they answer for a
  key depends on the network, so they are parameters of the model.\<close>

record validators =
  validateAnthropicKey :: "string \<Rightarrow> jsval outcome"
  validateOpenAIKey :: "string \<Rightarrow> jsval outcome"
  validateGoogleKey :: "string \<Rightarrow> jsval outcome"
  validateOpenRouterKey :: "string \<Rightarrow> jsval outcome"

definition validateApiKeyWithProvider :: "validators \<Rightarrow> string \<Rightarrow> string \<Rightarrow> jsval" where
  "validateApiKeyWithProvider vs providerType apiKey =
     (let trimmedKey = trim apiKey in
      if trimmedKey = []
      then JObj [(''valid'', JBool False), (''error'', JStr ''API key is required'')]
      else
        (case (if providerType = ''anthropic'' then validateAnthropicKey vs trimmedKey
               else if providerType = ''openai'' then validateOpenAIKey vs trimmedKey
               else if providerType = ''google'' then validateGoogleKey vs trimmedKey
               else if providerType = ''openrouter'' then validateOpenRouterKey vs trimmedKey
               else if providerType = ''ollama'' then Inr (JObj [(''valid'', JBool True)])
               else Inr (JObj [(''valid'', JBool True)])) of
           Inr r \<Rightarrow> r
         | Inl e \<Rightarrow> JObj [(''valid'', JBool False), (''error'', JStr (error_message e))]))"

section \<open>Plugin pre-flight (\<^verbatim>\<open>ensureRequiredPlugins\<close>)\<close>

text \<open>
  The part of the file system the plugin utility touches. A directory maps relative
  paths to files. \<open>config_file\<close> is \<^verbatim>\<open>~/.openclaw/openclaw.json\<close>, \<open>extensions\<close> the directory
  \<^verbatim>\<open>~/.openclaw/extensions\<close> with one directory per installed plugin (\<open>None\<close> while
  the directory does not exist), \<open>bundled\<close> the plugin directories shipped with the
  application.
\<close>

type_synonym dir = "string \<rightharpoonup> json_file"

record plugin_fs =
  config_file :: "json_file option"
  extensions :: "(string \<rightharpoonup> dir) option"
  bundled :: "string \<rightharpoonup> dir"

text \<open>What the environment decides: where the bundled plugins live, and whether a
  call of \<^verbatim>\<open>mkdirSync\<close>, \<^verbatim>\<open>cpSync\<close> or \<^verbatim>\<open>writeFileSync\<close> throws.\<close>

record plugin_env =
  bundledPluginsDir :: string
  mkdirSync_error :: "jsval option"
  cpSync_error :: "jsval option"
  writeFileSync_error :: "jsval option"

record plugin_result =
  success :: bool
  message :: "string option"

definition BUNDLED_PLUGINS :: "(string \<times> string) list" where
  "BUNDLED_PLUGINS = [(''hi-light'', ''hi-light'')]"

definition getExtensionsDir :: string where
  "getExtensionsDir = ''~/.openclaw/extensions''"

definition isPluginInstalled :: "string \<Rightarrow> plugin_fs \<Rightarrow> bool" where
  "isPluginInstalled pluginId fs =
     (case extensions fs of
        None \<Rightarrow> False
      | Some exts \<Rightarrow>
          (case exts pluginId of None \<Rightarrow> False | Some d \<Rightarrow> d ''package.json'' \<noteq> None))"

text \<open>\<^verbatim>\<open>BUNDLED_PLUGINS[pluginId] || pluginId\<close>\<close>

definition bundled_name :: "string \<Rightarrow> string" where
  "bundled_name pluginId =
     (case map_of BUNDLED_PLUGINS pluginId of
        Some n \<Rightarrow> if n \<noteq> [] then n else pluginId
      | None \<Rightarrow> pluginId)"

text \<open>\<^verbatim>\<open>cpSync(src, target, { recursive: true, force: true })\<close> writes every file of the
  source over the target and keeps the target's other files.\<close>

definition installBundledPlugin ::
  "plugin_env \<Rightarrow> string \<Rightarrow> plugin_fs \<Rightarrow> plugin_result \<times> plugin_fs" where
  "installBundledPlugin env pluginId fs =
     (case bundled fs (bundled_name pluginId) of
        None \<Rightarrow>
          (\<lparr>success = False,
            message = Some (''Bundled plugin not found: '' @ bundledPluginsDir env @ ''/''
                            @ bundled_name pluginId)\<rparr>, fs)
      | Some src \<Rightarrow>
          (case mkdirSync_error env of
             Some e \<Rightarrow> (\<lparr>success = False, message = Some (error_message e)\<rparr>, fs)
           | None \<Rightarrow>
               (let exts = (case extensions fs of None \<Rightarrow> Map.empty | Some m \<Rightarrow> m) in
                case cpSync_error env of
                  Some e \<Rightarrow>
                    (\<lparr>success = False, message = Some (error_message e)\<rparr>,
                     fs\<lparr>extensions := Some exts\<rparr>)
                | None \<Rightarrow>
                    (\<lparr>success = True, message = None\<rparr>,
                     fs\<lparr>extensions := Some (exts(pluginId \<mapsto>
                          (case exts pluginId of None \<Rightarrow> src | Some target \<Rightarrow> target ++ src)))\<rparr>))))"

text \<open>\<^verbatim>\<open>a !== b\<close> on two values parsed from two files: two objects or two arrays are
  never the same object.\<close>

fun strict_equal :: "jsval \<Rightarrow> jsval \<Rightarrow> bool" where
  "strict_equal (JObj kvs) b = False"
| "strict_equal (JArr xs) b = False"
| "strict_equal (JError name msg) b = False"
| "strict_equal a b = (a = b)"

definition read_package_json :: "dir \<Rightarrow> jsval option" where
  "read_package_json d =
     (case d ''package.json'' of
        Some (Content v) \<Rightarrow> Some v
      | Some Garbage \<Rightarrow> None
      | None \<Rightarrow> None)"

text \<open>Any exception inside \<^verbatim>\<open>isBundledNewer\<close> (a missing file, text that is not JSON,
  a \<^verbatim>\<open>null\<close> package) makes it answer \<^verbatim>\<open>false\<close>.\<close>

definition isBundledNewer :: "string \<Rightarrow> plugin_fs \<Rightarrow> bool" where
  "isBundledNewer pluginId fs =
     (case bundled fs (bundled_name pluginId) of
        None \<Rightarrow> False
      | Some b \<Rightarrow>
          (case read_package_json b of
             None \<Rightarrow> False
           | Some bundledPkg \<Rightarrow>
               (case (case extensions fs of None \<Rightarrow> None | Some exts \<Rightarrow> exts pluginId) of
                  None \<Rightarrow> False
                | Some i \<Rightarrow>
                    (case read_package_json i of
                       None \<Rightarrow> False
                     | Some installedPkg \<Rightarrow>
                         (case get_member bundledPkg ''version'' of
                            Inl e \<Rightarrow> False
                          | Inr bv \<Rightarrow>
                              (case get_member installedPkg ''version'' of
                                 Inl e \<Rightarrow> False
                               | Inr iv \<Rightarrow> \<not> strict_equal bv iv))))))"

text \<open>
  One round of the loop of \<^verbatim>\<open>ensureRequiredPlugins\<close>, for one plugin id, on the
  in-memory configuration object, the dirty flag and the file system. A named property
  assigned to an array (\<^verbatim>\<open>plugins\<close> or \<^verbatim>\<open>load\<close> being an array) is not part of what
  \<^verbatim>\<open>JSON.stringify\<close> writes, so the configuration keeps the array as it was.
\<close>

definition ensure_plugin ::
  "plugin_env \<Rightarrow> jsval \<Rightarrow> string \<Rightarrow> (string \<times> jsval) list \<times> bool \<times> plugin_fs
     \<Rightarrow> (string \<times> jsval) list \<times> bool \<times> plugin_fs" where
  "ensure_plugin env channels pluginId st =
     (case st of (config, configDirty, fs) \<Rightarrow>
      (case get_member channels pluginId of
         Inl e \<Rightarrow> (config, configDirty, fs)
       | Inr ch \<Rightarrow>
           if \<not> truthy ch then (config, configDirty, fs)
           else
             (case (if \<not> isPluginInstalled pluginId fs
                    then (case installBundledPlugin env pluginId fs of
                            (result, fs') \<Rightarrow> (success result, fs'))
                    else if isBundledNewer pluginId fs
                    then (True, snd (installBundledPlugin env pluginId fs))
                    else (True, fs)) of
                (installed, fs1) \<Rightarrow>
                  if \<not> installed then (config, configDirty, fs1)
                  else
                    (let pluginPath = getExtensionsDir @ ''/'' @ pluginId;
                         plugins = (case map_of config ''plugins'' of
                                      Some p \<Rightarrow> if is_object p then p else JObj []
                                    | None \<Rightarrow> JObj []);
                         load = (case plugins of
                                   JObj pk \<Rightarrow>
                                     (case map_of pk ''load'' of
                                        Some l \<Rightarrow> if is_object l then l else JObj []
                                      | None \<Rightarrow> JObj [])
                                 | _ \<Rightarrow> JObj []);
                         loadPaths = (case load of
                                        JObj lk \<Rightarrow>
                                          (case map_of lk ''paths'' of
                                             Some (JArr xs) \<Rightarrow> xs
                                           | _ \<Rightarrow> [])
                                      | _ \<Rightarrow> []);
                         missing = (JStr pluginPath \<notin> set loadPaths);
                         loadPaths' = (if missing then loadPaths @ [JStr pluginPath] else loadPaths);
                         load' = (case load of
                                    JObj lk \<Rightarrow> JObj (AList.update ''paths'' (JArr loadPaths') lk)
                                  | _ \<Rightarrow> load);
                         plugins' = (case plugins of
                                       JObj pk \<Rightarrow> JObj (AList.update ''load'' load' pk)
                                     | _ \<Rightarrow> plugins)
                     in (AList.update ''plugins'' plugins' config, configDirty \<or> missing, fs1)))))"

definition TypeError_in :: "string \<Rightarrow> jsval \<Rightarrow> jsval" where
  "TypeError_in k v =
     JError ''TypeError''
       (''Cannot use '' @ [CHR 0x27] @ ''in'' @ [CHR 0x27] @ '' operator to search for ''
        @ [CHR 0x27] @ k @ [CHR 0x27] @ '' in '' @ String v)"

text \<open>
  \<^verbatim>\<open>ensureRequiredPlugins\<close> returns nothing; the model returns whether it threw and the
  file system it leaves. A missing configuration file leaves \<^verbatim>\<open>config = {}\<close>; a file
  that does not parse takes the \<^verbatim>\<open>return\<close> of the \<^verbatim>\<open>catch\<close>. The loop runs over
  \<^verbatim>\<open>Object.keys(BUNDLED_PLUGINS)\<close>.
\<close>

definition ensureRequiredPlugins :: "plugin_env \<Rightarrow> plugin_fs \<Rightarrow> unit outcome \<times> plugin_fs" where
  "ensureRequiredPlugins env fs =
     (case (case config_file fs of
              None \<Rightarrow> Some (JObj [])
            | Some Garbage \<Rightarrow> None
            | Some (Content v) \<Rightarrow> Some v) of
        None \<Rightarrow> (Inr (), fs)
      | Some config \<Rightarrow>
          (case get_member config ''channels'' of
             Inl e \<Rightarrow> (Inl e, fs)
           | Inr channels \<Rightarrow>
               if \<not> truthy channels then (Inr (), fs)
               else
                 (case config of
                    JObj cfg \<Rightarrow>
                      (case (case map_of cfg ''plugins'' of
                               None \<Rightarrow> Inr (cfg, False)
                             | Some pluginsCfg \<Rightarrow>
                                 if \<not> truthy pluginsCfg then Inr (cfg, False)
                                 else
                                   (case pluginsCfg of
                                      JObj pk \<Rightarrow>
                                        if ''loadPaths'' \<in> fst ` set pk
                                        then Inr (AList.update ''plugins''
                                                    (JObj (AList.delete ''loadPaths'' pk)) cfg, True)
                                        else Inr (cfg, False)
                                    | JArr xs \<Rightarrow> Inr (cfg, False)
                                    | _ \<Rightarrow> Inl (TypeError_in ''loadPaths'' pluginsCfg))) of
                         Inl e \<Rightarrow> (Inl e, fs)
                       | Inr (cfg1, dirty1) \<Rightarrow>
                           (case fold (ensure_plugin env channels) (map fst BUNDLED_PLUGINS)
                                   (cfg1, dirty1, fs) of
                              (cfg2, dirty2, fs2) \<Rightarrow>
                                if dirty2
                                then (case writeFileSync_error env of
                                        None \<Rightarrow>
                                          (Inr (), fs2\<lparr>config_file :=
                                                     Some (Content (json_written (JObj cfg2)))\<rparr>)
                                      | Some e \<Rightarrow> (Inr (), fs2))
                                else (Inr (), fs2)))
                  | _ \<Rightarrow> (Inr (), fs))))"

section \<open>The RPC correlator\<close>

text \<open>
  Modelled from the spec: \<^verbatim>\<open>GatewayManager.rpc\<close>, which the handler \<^verbatim>\<open>gateway:rpc\<close>
  awaits, is not among the sources. The correlator follows section 4.3 of the
  specification. A call takes a fresh id from a counter and is recorded as pending with
  its deadline (30 s when no timeout is given); a result frame with the id of a pending
  call resolves it or rejects it with \<^verbatim>\<open>RpcError\<close>; the elapsed deadline of a pending
  call rejects it with \<^verbatim>\<open>TimeoutError\<close>; a closing transport rejects every pending
  call with \<^verbatim>\<open>TransportClosed\<close>, and so does a send on a closed transport. A frame or
  a deadline for an id that is not pending is discarded. \<open>settled\<close> lists the terminal
  resolutions in the order in which callers observe them.
\<close>

datatype rpc_failure = RpcError int string | TimeoutError | TransportClosed

datatype resolution = Resolve jsval | Reject rpc_failure

record pending_call =
  call_method :: string
  deadline :: nat

record correlator =
  next_id :: nat
  pending :: "(nat \<times> pending_call) list"
  connected :: bool
  settled :: "(nat \<times> resolution) list"

datatype correlator_event =
    Call string jsval "nat option" nat
  | ResultFrame nat "(int \<times> string) + jsval"
  | DeadlineElapsed nat
  | TransportClose
  | TransportOpen

definition initial_correlator :: correlator where
  "initial_correlator = \<lparr>next_id = 0, pending = [], connected = False, settled = []\<rparr>"

fun correlate :: "correlator_event \<Rightarrow> correlator \<Rightarrow> correlator" where
  "correlate (Call m params timeoutMs now) c =
     (if connected c
      then c\<lparr>next_id := Suc (next_id c),
             pending := pending c @
               [(next_id c,
                 \<lparr>call_method = m,
                  deadline = now + (case timeoutMs of None \<Rightarrow> 30000 | Some ms \<Rightarrow> ms)\<rparr>)]\<rparr>
      else c\<lparr>next_id := Suc (next_id c),
             settled := settled c @ [(next_id c, Reject TransportClosed)]\<rparr>)"
| "correlate (ResultFrame i r) c =
     (if i \<in> set (map fst (pending c))
      then c\<lparr>pending := filter (\<lambda>(j, pc). j \<noteq> i) (pending c),
             settled := settled c @
               [(i, case r of Inr v \<Rightarrow> Resolve v | Inl (code, msg) \<Rightarrow> Reject (RpcError code msg))]\<rparr>
      else c)"
| "correlate (DeadlineElapsed i) c =
     (if i \<in> set (map fst (pending c))
      then c\<lparr>pending := filter (\<lambda>(j, pc). j \<noteq> i) (pending c),
             settled := settled c @ [(i, Reject TimeoutError)]\<rparr>
      else c)"
| "correlate TransportClose c =
     c\<lparr>pending := [], connected := False,
       settled := settled c @ map (\<lambda>(i, pc). (i, Reject TransportClosed)) (pending c)\<rparr>"
| "correlate TransportOpen c = c\<lparr>connected := True\<rparr>"

definition run_correlator :: "correlator_event list \<Rightarrow> correlator" where
  "run_correlator es = fold correlate es initial_correlator"

definition resolutions :: "correlator \<Rightarrow> nat \<Rightarrow> resolution list" where
  "resolutions c i = map snd (filter (\<lambda>(j, r). j = i) (settled c))"

definition is_pending :: "correlator \<Rightarrow> nat \<Rightarrow> bool" where
  "is_pending c i = (i \<in> set (map fst (pending c)))"

text \<open>What the awaited promise of \<^verbatim>\<open>gatewayManager.rpc\<close> does for a resolution: it
  yields the payload or throws the error.\<close>

fun rpc_outcome :: "resolution \<Rightarrow> jsval outcome" where
  "rpc_outcome (Resolve v) = Inr v"
| "rpc_outcome (Reject (RpcError code msg)) = Inl (JError ''RpcError'' msg)"
| "rpc_outcome (Reject TimeoutError) = Inl (JError ''TimeoutError'' [])"
| "rpc_outcome (Reject TransportClosed) = Inl (JError ''TransportClosed'' [])"

section \<open>The lifecycle state machine\<close>

text \<open>
  Modelled from the spec: the lifecycle of \<^verbatim>\<open>GatewayManager\<close> is not among the sources.
  The transitions follow section 4.5 of the specification. A start is a no-op while
  starting or running and otherwise sets \<^verbatim>\<open>Starting\<close>; readiness while starting sets
  \<^verbatim>\<open>Running\<close> with the bound port; a failed start sets \<^verbatim>\<open>Error\<close> with its message; a
  stop sets \<^verbatim>\<open>Stopped\<close>; a restart is a stop followed by a start; an exit of the
  process while starting or running sets \<^verbatim>\<open>Error\<close> with the exit code.
\<close>

datatype lifecycle_event =
    StartRequested
  | Ready int
  | StartFailed string
  | StopRequested
  | RestartRequested
  | ProcessExited int

definition initial_status :: gateway_status where
  "initial_status = \<lparr>state = Stopped, port = None, error = None\<rparr>"

definition lifecycle_start :: "gateway_status \<Rightarrow> gateway_status" where
  "lifecycle_start st =
     (if state st = Starting \<or> state st = Running then st
      else \<lparr>state = Starting, port = None, error = None\<rparr>)"

definition lifecycle_stop :: "gateway_status \<Rightarrow> gateway_status" where
  "lifecycle_stop st = \<lparr>state = Stopped, port = None, error = None\<rparr>"

fun lifecycle :: "lifecycle_event \<Rightarrow> gateway_status \<Rightarrow> gateway_status" where
  "lifecycle StartRequested st = lifecycle_start st"
| "lifecycle (Ready p) st =
     (if state st = Starting then \<lparr>state = Running, port = Some p, error = None\<rparr> else st)"
| "lifecycle (StartFailed msg) st =
     (if state st = Starting then \<lparr>state = Error, port = None, error = Some msg\<rparr> else st)"
| "lifecycle StopRequested st = lifecycle_stop st"
| "lifecycle RestartRequested st = lifecycle_start (lifecycle_stop st)"
| "lifecycle (ProcessExited code) st =
     (if state st = Running \<or> state st = Starting
      then \<lparr>state = Error, port = None, error = Some (show_int code)\<rparr>
      else st)"

definition run_lifecycle :: "lifecycle_event list \<Rightarrow> gateway_status" where
  "run_lifecycle es = fold lifecycle es initial_status"

section \<open>Invariants and derived forms\<close>

text \<open>The store \<^verbatim>\<open>saveProviderKeyToOpenClaw\<close> writes for a store of the declared type,
  as one update of the store it read.\<close>

definition upsert :: "string \<Rightarrow> string \<Rightarrow> (string \<times> jsval) list \<Rightarrow> (string \<times> jsval) list" where
  "upsert prov apiKey kvs =
     (let profileId = prov @ '':default'';
          entry = JObj [(''type'', JStr ''api_key''), (''provider'', JStr prov),
                        (''key'', JStr apiKey)];
          ord = (case own kvs ''order'' of JObj ok \<Rightarrow> ok | _ \<Rightarrow> []);
          ids = (case map_of ord prov of Some (JArr ids) \<Rightarrow> ids | _ \<Rightarrow> []);
          lg = (case own kvs ''lastGood'' of JObj lk \<Rightarrow> lk | _ \<Rightarrow> [])
      in AList.update ''lastGood'' (JObj (AList.update prov (JStr profileId) lg))
           (AList.update ''order''
              (JObj (AList.update prov
                       (JArr (if JStr profileId \<in> set ids then ids else ids @ [JStr profileId])) ord))
              (AList.update ''profiles'' (set_profile (own kvs ''profiles'') profileId entry) kvs)))"

text \<open>The invariant of the correlator: no id is pending twice or settled twice, no id
  is both, and the ids handed out so far are exactly the pending and the settled ones.\<close>

definition correlator_inv :: "correlator \<Rightarrow> bool" where
  "correlator_inv c =
     (distinct (map fst (pending c)) \<and> distinct (map fst (settled c))
      \<and> set (map fst (pending c)) \<inter> set (map fst (settled c)) = {}
      \<and> set (map fst (pending c)) \<union> set (map fst (settled c)) = {..< next_id c})"

text \<open>The invariant of the status snapshot.\<close>

definition status_inv :: "gateway_status \<Rightarrow> bool" where
  "status_inv st = ((state st = Running \<or> port st = None) \<and> (state st = Error \<or> error st = None))"

section \<open>Evaluation lemmas and auxiliary facts\<close>

lemma show_int_18789: "show_int 18789 = ''18789''"
  by (simp add: show_int_def digits.simps digit_char_def)

lemma show_int_18790: "show_int 18790 = ''18790''"
  by (simp add: show_int_def digits.simps digit_char_def)

lemma encode_tok: "encodeURIComponent ''tok'' = Inr ''tok''"
  by code_simp

lemma encode_sample: "encodeURIComponent ''a&b=c/d'' = Inr ''a%26b%3Dc%2Fd''"
  by code_simp

lemma uri_safe_unreserved: "uri_unreserved c \<Longrightarrow> uri_safe c"
  by (simp only: uri_safe_def simp_thms)

lemma uri_safe_percent: "uri_safe (CHR ''%'')"
  by (simp only: uri_safe_def simp_thms)

lemma hex_digit_safe:
  assumes "d < 16"
  shows "uri_safe (hex_digit d)"
proof -
  have "d < length ''0123456789ABCDEF''" using assms by simp
  then have "''0123456789ABCDEF'' ! d \<in> set ''0123456789ABCDEF''" by (rule nth_mem)
  then show ?thesis by (simp only: uri_safe_def hex_digit_def simp_thms)
qed

lemma percent_safe:
  assumes "b < 256"
  shows "list_all uri_safe (percent b)"
proof -
  have "b div 16 < 16" using assms by simp
  then have hi: "uri_safe (hex_digit (b div 16))" by (rule hex_digit_safe)
  have "b mod 16 < 16" by simp
  then have lo: "uri_safe (hex_digit (b mod 16))" by (rule hex_digit_safe)
  show ?thesis unfolding percent_def using hi lo uri_safe_percent by simp
qed

lemma encode_char_safe: "list_all uri_safe (encode_char c)"
proof (cases "uri_unreserved c")
  case True
  then have "encode_char c = [c]" by (simp only: encode_char_def if_True)
  with True show ?thesis by (simp only: list.pred_inject uri_safe_unreserved simp_thms)
next
  case False
  have n: "(of_char c :: nat) < 256" by (rule nat_of_char_less_256)
  from False have "encode_char c = percent (of_char c)" by (simp only: encode_char_def if_False)
  with percent_safe [OF n] show ?thesis by (simp only:)
qed

lemma encoded_safe: "list_all uri_safe (concat (map encode_char s))"
  by (induction s)
     (simp_all only: list.map concat.simps list.pred_inject list_all_append encode_char_safe simp_thms)

section \<open>The error contract of the IPC handlers\<close>

text \<open>
  C1, as stated, fails: the handler \<^verbatim>\<open>gateway:status\<close> has no \<^verbatim>\<open>try\<close>, so an exception
  of \<^verbatim>\<open>getStatus\<close> leaves the handler instead of becoming a failure record.
\<close>

theorem gateway_status_failure_leaves_handler:
  "handle_gateway_status (Inl (JError ''Error'' ''gateway unavailable''))
     = Inl (JError ''Error'' ''gateway unavailable'')"
  by (simp add: handle_gateway_status_def)

text \<open>
  C1 (amended): for start, stop, restart, rpc, getControlUiUrl and the health check, a
  failure \<open>e\<close> of the underlying operation is returned as the record
  \<^verbatim>\<open>{ success: false, error: String(e) }\<close> (the health check adds \<^verbatim>\<open>ok: false\<close>), and
  these six handlers return a value whatever the operation does. The handlers for
  status, isConnected and the three shell operations have no \<^verbatim>\<open>try\<close>: a failure of
  the underlying operation leaves the handler as an exception.
\<close>

theorem ipc_failure_contract:
  "handle_gateway_start (Inl e) = Inr (failure e)
   \<and> handle_gateway_stop (Inl e) = Inr (failure e)
   \<and> handle_gateway_restart (Inl e) = Inr (failure e)
   \<and> (rpc m ps t = Inl e \<longrightarrow> handle_gateway_rpc rpc m ps t = Inr (failure e))
   \<and> handle_gateway_getControlUiUrl (Inl e) tok = Inr (failure e)
   \<and> handle_gateway_getControlUiUrl (Inr st) (Inl e) = Inr (failure e)
   \<and> handle_gateway_health (Inl e)
       = Inr (JObj [(''success'', JBool False), (''ok'', JBool False), (''error'', JStr (String e))])
   \<and> get_member (failure e) ''success'' = Inr (JBool False)
   \<and> get_member (failure e) ''error'' = Inr (JStr (String e))
   \<and> (\<exists>v. handle_gateway_start r1 = Inr v)
   \<and> (\<exists>v. handle_gateway_stop r1 = Inr v)
   \<and> (\<exists>v. handle_gateway_restart r1 = Inr v)
   \<and> (\<exists>v. handle_gateway_rpc rpc m ps t = Inr v)
   \<and> (\<exists>v. handle_gateway_getControlUiUrl r2 r3 = Inr v)
   \<and> (\<exists>v. handle_gateway_health r4 = Inr v)
   \<and> handle_gateway_status (Inl e) = Inl e
   \<and> handle_gateway_isConnected (Inl e) = Inl e
   \<and> handle_shell_openExternal (Inl e) = Inl e
   \<and> handle_shell_showItemInFolder (Inl e) = Inl e
   \<and> handle_shell_openPath (Inl e) = Inl e"
  by (simp add: handle_gateway_start_def handle_gateway_stop_def handle_gateway_restart_def
      handle_gateway_rpc_def handle_gateway_getControlUiUrl_def handle_gateway_health_def
      handle_gateway_status_def handle_gateway_isConnected_def handle_shell_openExternal_def
      handle_shell_showItemInFolder_def handle_shell_openPath_def failure_def Let_def
      split: sum.split)

text \<open>The contract at a rejected RPC call, a failed start and a failed shell call.\<close>

theorem ipc_failure_contract_witness:
  "handle_gateway_rpc (\<lambda>m ps t. Inl (JError ''TimeoutError'' ''no reply'')) ''ping'' JNull JUndefined
     = Inr (JObj [(''success'', JBool False), (''error'', JStr ''TimeoutError: no reply'')])
   \<and> handle_gateway_start (Inl (JError ''TimeoutError'' ''no reply''))
     = Inr (JObj [(''success'', JBool False), (''error'', JStr ''TimeoutError: no reply'')])
   \<and> handle_shell_openExternal (Inl (JError ''TimeoutError'' ''no reply''))
     = Inl (JError ''TimeoutError'' ''no reply'')"
  using ipc_failure_contract [of "JError ''TimeoutError'' ''no reply''"
      "\<lambda>m ps t. Inl (JError ''TimeoutError'' ''no reply'')" "''ping''" JNull JUndefined]
  by (simp add: failure_def)

section \<open>Event forwarding\<close>

text \<open>
  C4, as stated, fails: a status event that arrives while the main window is destroyed
  is not forwarded to the renderer.
\<close>

theorem destroyed_window_receives_nothing:
  "emit gateway_event_listeners True ''status'' (JObj [(''state'', JStr ''running'')]) = Inr []"
  by (simp add: gateway_event_listeners_def)

text \<open>
  C4 (amended): the bridge registers listeners on the gateway manager under exactly the
  seven event names status, message, notification, channel:status, chat:message, exit
  and error. While the main window is not destroyed, an event under one of these names
  is forwarded by one send on the channel gateway:status-changed, gateway:message,
  gateway:notification, gateway:channel-status, gateway:chat-message, gateway:exit or
  gateway:error (for error, when the payload's \<^verbatim>\<open>message\<close> can be read), and an event
  under any other name is not forwarded. While the main window is destroyed nothing is
  forwarded.
\<close>

theorem event_forwarding_topics:
  "emit gateway_event_listeners False name payload =
     (if name = ''status'' then Inr [(''gateway:status-changed'', payload)]
      else if name = ''message'' then Inr [(''gateway:message'', payload)]
      else if name = ''notification'' then Inr [(''gateway:notification'', payload)]
      else if name = ''channel:status'' then Inr [(''gateway:channel-status'', payload)]
      else if name = ''chat:message'' then Inr [(''gateway:chat-message'', payload)]
      else if name = ''exit'' then Inr [(''gateway:exit'', payload)]
      else if name = ''error''
      then (case get_member payload ''message'' of
              Inl e \<Rightarrow> Inl e
            | Inr m \<Rightarrow> Inr [(''gateway:error'', m)])
      else Inr [])
   \<and> emit gateway_event_listeners True name payload = Inr []
   \<and> map fst gateway_event_listeners =
       [''status'', ''message'', ''notification'', ''channel:status'', ''chat:message'',
        ''exit'', ''error'']"
  by (auto simp add: gateway_event_listeners_def split: sum.splits)

text \<open>An event named \<^verbatim>\<open>channel:status\<close> is forwarded on \<^verbatim>\<open>gateway:channel-status\<close>; an
  event named \<^verbatim>\<open>channel-status\<close> has no listener.\<close>

theorem event_forwarding_topics_witness:
  "emit gateway_event_listeners False ''channel:status'' (JStr ''up'')
     = Inr [(''gateway:channel-status'', JStr ''up'')]
   \<and> emit gateway_event_listeners False ''channel-status'' (JStr ''up'') = Inr []"
  using event_forwarding_topics [of "''channel:status''" "JStr ''up''"]
    event_forwarding_topics [of "''channel-status''" "JStr ''up''"]
  by simp

text \<open>
  C5, as stated, fails for the topic error: the renderer receives the string
  \<^verbatim>\<open>error.message\<close>, not the error object the manager emitted.
\<close>

theorem error_event_forwards_message_only:
  "emit gateway_event_listeners False ''error'' (JError ''Error'' ''spawn ENOENT'')
     = Inr [(''gateway:error'', JStr ''spawn ENOENT'')]"
  by (simp add: gateway_event_listeners_def)

text \<open>
  C5 (amended): while the main window is not destroyed, an event on one of the six
  topics status, message, notification, channel:status, chat:message and exit is
  forwarded with its payload unchanged; an event on the topic error is forwarded as the
  \<^verbatim>\<open>message\<close> property of its payload.
\<close>

theorem event_forwarding_payload:
  "(name \<in> set [''status'', ''message'', ''notification'', ''channel:status'', ''chat:message'', ''exit'']
      \<longrightarrow> map_sum id (map snd) (emit gateway_event_listeners False name payload) = Inr [payload])
   \<and> map_sum id (map snd) (emit gateway_event_listeners False ''error'' (JError ename msg))
       = Inr [JStr msg]
   \<and> map_sum id (map snd) (emit gateway_event_listeners False ''error'' (JObj kvs))
       = Inr [case map_of kvs ''message'' of Some v \<Rightarrow> v | None \<Rightarrow> JUndefined]"
  by (auto simp add: gateway_event_listeners_def)

text \<open>An exit event with code 1 reaches the renderer as the number 1.\<close>

theorem event_forwarding_payload_witness:
  "''exit'' \<in> set [''status'', ''message'', ''notification'', ''channel:status'', ''chat:message'', ''exit'']
   \<and> map_sum id (map snd) (emit gateway_event_listeners False ''exit'' (JNum 1)) = Inr [JNum 1]"
  using event_forwarding_payload [of "''exit''" "JNum 1"] by simp

section \<open>Validation of an API key\<close>

lemma trim_blank: "trim ''  '' = []"
  by (simp add: trim_def is_space1_def)

lemma trim_key: "trim '' sk-1 '' = ''sk-1''"
  by (simp add: trim_def is_space1_def is_space2_def is_space3_def)

text \<open>
  C9: for every key that is empty after trimming, \<^verbatim>\<open>validateApiKeyWithProvider\<close>
  returns \<^verbatim>\<open>{ valid: false, error: 'API key is required' }\<close> whatever the provider type;
  for a key that is not, it returns \<^verbatim>\<open>{ valid: true }\<close> when the provider type is
  \<^verbatim>\<open>ollama\<close> or any type other than anthropic, openai, google and openrouter, whatever
  the key and whatever the four vendor validators would answer.
\<close>

theorem validate_key_dispatch:
  "(trim apiKey = [] \<longrightarrow>
      validateApiKeyWithProvider vs providerType apiKey
        = JObj [(''valid'', JBool False), (''error'', JStr ''API key is required'')])
   \<and> (trim apiKey \<noteq> [] \<and> providerType \<noteq> ''anthropic'' \<and> providerType \<noteq> ''openai''
        \<and> providerType \<noteq> ''google'' \<and> providerType \<noteq> ''openrouter'' \<longrightarrow>
      validateApiKeyWithProvider vs providerType apiKey = JObj [(''valid'', JBool True)])"
  by (simp add: validateApiKeyWithProvider_def Let_def)

text \<open>A blank key for Anthropic is refused though the validators would accept it; a key
  for Ollama is accepted though the validators would throw.\<close>

theorem validate_key_dispatch_witness:
  "trim ''  '' = []
   \<and> validateApiKeyWithProvider
        \<lparr>validateAnthropicKey = (\<lambda>k. Inr (JObj [(''valid'', JBool True)])),
         validateOpenAIKey = (\<lambda>k. Inr (JObj [(''valid'', JBool True)])),
         validateGoogleKey = (\<lambda>k. Inr (JObj [(''valid'', JBool True)])),
         validateOpenRouterKey = (\<lambda>k. Inr (JObj [(''valid'', JBool True)]))\<rparr>
        ''anthropic'' ''  ''
      = JObj [(''valid'', JBool False), (''error'', JStr ''API key is required'')]
   \<and> trim '' sk-1 '' \<noteq> []
   \<and> validateApiKeyWithProvider
        \<lparr>validateAnthropicKey = (\<lambda>k. Inl (JError ''Error'' ''offline'')),
         validateOpenAIKey = (\<lambda>k. Inl (JError ''Error'' ''offline'')),
         validateGoogleKey = (\<lambda>k. Inl (JError ''Error'' ''offline'')),
         validateOpenRouterKey = (\<lambda>k. Inl (JError ''Error'' ''offline''))\<rparr>
        ''ollama'' '' sk-1 ''
      = JObj [(''valid'', JBool True)]"
  using validate_key_dispatch [of "''  ''"
      "\<lparr>validateAnthropicKey = (\<lambda>k. Inr (JObj [(''valid'', JBool True)])),
         validateOpenAIKey = (\<lambda>k. Inr (JObj [(''valid'', JBool True)])),
         validateGoogleKey = (\<lambda>k. Inr (JObj [(''valid'', JBool True)])),
         validateOpenRouterKey = (\<lambda>k. Inr (JObj [(''valid'', JBool True)]))\<rparr>" "''anthropic''"]
    validate_key_dispatch [of "'' sk-1 ''"
      "\<lparr>validateAnthropicKey = (\<lambda>k. Inl (JError ''Error'' ''offline'')),
         validateOpenAIKey = (\<lambda>k. Inl (JError ''Error'' ''offline'')),
         validateGoogleKey = (\<lambda>k. Inl (JError ''Error'' ''offline'')),
         validateOpenRouterKey = (\<lambda>k. Inl (JError ''Error'' ''offline''))\<rparr>" "''ollama''"]
  by (simp add: trim_blank trim_key)

section \<open>Early exits of the plugin pre-flight\<close>

text \<open>Past the early exits the pre-flight does change the file system: with the channel
  \<^verbatim>\<open>hi-light\<close> configured and the plugin bundled, it installs the plugin and writes the
  load path into the configuration.\<close>

lemma preflight_installs:
  "ensureRequiredPlugins
     \<lparr>bundledPluginsDir = ''/app/plugins'', mkdirSync_error = None,
      cpSync_error = None, writeFileSync_error = None\<rparr>
     \<lparr>config_file = Some (Content (JObj [(''channels'', JObj [(''hi-light'', JObj [])])])),
      extensions = None,
      bundled = [''hi-light'' \<mapsto> [''package.json'' \<mapsto> Content (JObj [(''version'', JStr ''1.0.0'')])]]\<rparr>
   = (Inr (),
      \<lparr>config_file = Some (Content (JObj
           [(''channels'', JObj [(''hi-light'', JObj [])]),
            (''plugins'', JObj [(''load'', JObj [(''paths'',
                JArr [JStr ''~/.openclaw/extensions/hi-light''])])])])),
       extensions = Some [''hi-light'' \<mapsto> [''package.json'' \<mapsto> Content (JObj [(''version'', JStr ''1.0.0'')])]],
       bundled = [''hi-light'' \<mapsto> [''package.json'' \<mapsto> Content (JObj [(''version'', JStr ''1.0.0'')])]]\<rparr>)"
  by (simp add: ensureRequiredPlugins_def BUNDLED_PLUGINS_def ensure_plugin_def isPluginInstalled_def
      installBundledPlugin_def bundled_name_def getExtensionsDir_def Let_def)

text \<open>
  C10: if \<^verbatim>\<open>~/.openclaw/openclaw.json\<close> exists and fails to parse, or if the parsed
  configuration is an object with no \<^verbatim>\<open>channels\<close> key, \<^verbatim>\<open>ensureRequiredPlugins\<close> returns
  and leaves the file system as it found it: no plugin installed or copied, no
  configuration written. More generally the file system is unchanged whenever the
  \<^verbatim>\<open>channels\<close> of the parsed value are missing, falsy or unreadable.
\<close>

theorem preflight_early_exit:
  "(config_file fs = Some Garbage \<longrightarrow> ensureRequiredPlugins env fs = (Inr (), fs))
   \<and> (config_file fs = Some (Content (JObj cfg)) \<and> map_of cfg ''channels'' = None \<longrightarrow>
        ensureRequiredPlugins env fs = (Inr (), fs))
   \<and> (config_file fs = Some (Content v) \<and> (\<forall>c. get_member v ''channels'' = Inr c \<longrightarrow> \<not> truthy c) \<longrightarrow>
        snd (ensureRequiredPlugins env fs) = fs)"
  by (auto simp add: ensureRequiredPlugins_def split: sum.splits)

text \<open>A configuration file that is not JSON, and one that holds an invalid
  \<^verbatim>\<open>plugins.loadPaths\<close> but no channels: both are left alone. A configuration file
  that holds \<^verbatim>\<open>null\<close> is left alone too, by a TypeError.\<close>

theorem preflight_early_exit_witness:
  "ensureRequiredPlugins
     \<lparr>bundledPluginsDir = ''/app/plugins'', mkdirSync_error = None,
      cpSync_error = None, writeFileSync_error = None\<rparr>
     \<lparr>config_file = Some Garbage, extensions = None, bundled = Map.empty\<rparr>
   = (Inr (), \<lparr>config_file = Some Garbage, extensions = None, bundled = Map.empty\<rparr>)
   \<and> ensureRequiredPlugins
     \<lparr>bundledPluginsDir = ''/app/plugins'', mkdirSync_error = None,
      cpSync_error = None, writeFileSync_error = None\<rparr>
     \<lparr>config_file = Some (Content (JObj [(''plugins'', JObj [(''loadPaths'', JArr [])])])),
      extensions = None, bundled = Map.empty\<rparr>
   = (Inr (), \<lparr>config_file = Some (Content (JObj [(''plugins'', JObj [(''loadPaths'', JArr [])])])),
      extensions = None, bundled = Map.empty\<rparr>)
   \<and> ensureRequiredPlugins
     \<lparr>bundledPluginsDir = ''/app/plugins'', mkdirSync_error = None,
      cpSync_error = None, writeFileSync_error = None\<rparr>
     \<lparr>config_file = Some (Content JNull), extensions = None, bundled = Map.empty\<rparr>
   = (Inl (TypeError_read ''null'' ''channels''),
      \<lparr>config_file = Some (Content JNull), extensions = None, bundled = Map.empty\<rparr>)"
  using preflight_early_exit
    [where fs = "\<lparr>config_file = Some Garbage, extensions = None, bundled = Map.empty\<rparr>"
       and env = "\<lparr>bundledPluginsDir = ''/app/plugins'', mkdirSync_error = None,
          cpSync_error = None, writeFileSync_error = None\<rparr>"]
    preflight_early_exit
    [where fs = "\<lparr>config_file = Some (Content (JObj [(''plugins'', JObj [(''loadPaths'', JArr [])])])),
          extensions = None, bundled = Map.empty\<rparr>"
       and cfg = "[(''plugins'', JObj [(''loadPaths'', JArr [])])]"
       and env = "\<lparr>bundledPluginsDir = ''/app/plugins'', mkdirSync_error = None,
          cpSync_error = None, writeFileSync_error = None\<rparr>"]
    preflight_early_exit
    [where fs = "\<lparr>config_file = Some (Content JNull), extensions = None, bundled = Map.empty\<rparr>"
       and v = JNull
       and env = "\<lparr>bundledPluginsDir = ''/app/plugins'', mkdirSync_error = None,
          cpSync_error = None, writeFileSync_error = None\<rparr>"]
  by (simp add: ensureRequiredPlugins_def)

section \<open>Exactly-once resolution of RPC calls\<close>

lemma fst_filter_neq:
  "map fst (filter (\<lambda>(j, pc). j \<noteq> i) xs) = filter (\<lambda>j. j \<noteq> i) (map fst xs)"
  by (induction xs) auto

lemma reject_fst: "fst (case x of (i, pc) \<Rightarrow> (i, r)) = fst x"
  by (cases x) simp

lemma fst_map_reject:
  "map fst (map (\<lambda>(i, pc). (i, r)) xs) = map fst xs"
  by (simp add: comp_def reject_fst)

lemma inv_initial: "correlator_inv initial_correlator"
  by (simp add: correlator_inv_def initial_correlator_def)

lemma inv_call:
  assumes "correlator_inv c"
  shows "correlator_inv (correlate (Call m ps t now) c)"
proof -
  from assms have fresh: "next_id c \<notin> set (map fst (pending c))"
      "next_id c \<notin> set (map fst (settled c))"
    unfolding correlator_inv_def by (metis UnI1 lessThan_iff less_irrefl, metis UnI2 lessThan_iff less_irrefl)
  from assms fresh show ?thesis
    unfolding correlator_inv_def
    by (auto simp add: lessThan_Suc)
qed

lemma inv_retire:
  assumes "correlator_inv c" and "i \<in> set (map fst (pending c))"
  shows "correlator_inv (c\<lparr>pending := filter (\<lambda>(j, pc). j \<noteq> i) (pending c),
                            settled := settled c @ [(i, r)]\<rparr>)"
  using assms unfolding correlator_inv_def
  by (auto simp add: fst_filter_neq)

lemma inv_close:
  assumes "correlator_inv c"
  shows "correlator_inv (correlate TransportClose c)"
proof -
  have "map fst (settled (correlate TransportClose c))
          = map fst (settled c) @ map fst (pending c)"
    by (simp add: comp_def reject_fst)
  moreover have "pending (correlate TransportClose c) = []" by simp
  moreover have "next_id (correlate TransportClose c) = next_id c" by simp
  ultimately show ?thesis
    using assms unfolding correlator_inv_def
    by (simp only: list.map distinct.simps distinct_append set_append set_simps) blast
qed

lemma inv_step: "correlator_inv c \<Longrightarrow> correlator_inv (correlate e c)"
proof (cases e)
  case (Call m ps t now)
  assume "correlator_inv c"
  then show ?thesis unfolding Call by (rule inv_call)
next
  case (ResultFrame i r)
  assume "correlator_inv c"
  then show ?thesis unfolding ResultFrame using inv_retire [of c i] by simp
next
  case (DeadlineElapsed i)
  assume "correlator_inv c"
  then show ?thesis unfolding DeadlineElapsed using inv_retire [of c i] by simp
next
  case TransportClose
  assume "correlator_inv c"
  then show ?thesis unfolding TransportClose by (rule inv_close)
next
  case TransportOpen
  assume "correlator_inv c"
  then show ?thesis unfolding TransportOpen by (simp add: correlator_inv_def)
qed

lemma inv_run: "correlator_inv (run_correlator es)"
  unfolding run_correlator_def
  by (induction es rule: rev_induct) (simp_all add: inv_initial inv_step)

lemma resolutions_count:
  "distinct (map fst xs) \<Longrightarrow>
     length (filter (\<lambda>(j, r). j = i) xs) = (if i \<in> set (map fst xs) then 1 else 0)"
  by (induction xs) (auto simp add: rev_image_eqI)

lemma resolutions_none:
  "i \<notin> set (map fst xs) \<Longrightarrow> filter (\<lambda>(j, r). j = i) xs = []"
  by (induction xs) auto

lemma resolutions_closed:
  "distinct (map fst xs) \<Longrightarrow> i \<in> set (map fst xs) \<Longrightarrow>
     map snd (filter (\<lambda>(j, r). j = i) (map (\<lambda>(i, pc). (i, R)) xs)) = [R]"
proof (induction xs)
  case Nil
  then show ?case by simp
next
  case (Cons a xs)
  obtain j pc where a: "a = (j, pc)" by (cases a)
  show ?case
  proof (cases "j = i")
    case True
    with Cons.prems a have "i \<notin> set (map fst xs)" by auto
    then have "i \<notin> set (map fst (map (\<lambda>(i, pc). (i, R)) xs))"
      by (simp only: fst_map_reject) simp
    then have "filter (\<lambda>(j, r). j = i) (map (\<lambda>(i, pc). (i, R)) xs) = []"
      by (rule resolutions_none)
    with True a show ?thesis by simp
  next
    case False
    with Cons a show ?thesis by auto
  qed
qed

lemma inv_facts:
  assumes "correlator_inv c"
  shows "length (resolutions c i) \<le> 1"
    and "is_pending c i \<Longrightarrow> resolutions c i = []"
    and "i < next_id c \<Longrightarrow> \<not> is_pending c i \<Longrightarrow> length (resolutions c i) = 1"
    and "next_id c \<le> i \<Longrightarrow> resolutions c i = [] \<and> \<not> is_pending c i"
proof -
  from assms have d: "distinct (map fst (settled c))"
    and disj: "set (map fst (pending c)) \<inter> set (map fst (settled c)) = {}"
    and all: "set (map fst (pending c)) \<union> set (map fst (settled c)) = {..< next_id c}"
    unfolding correlator_inv_def by simp_all
  have len: "length (resolutions c i) = (if i \<in> set (map fst (settled c)) then 1 else 0)"
    unfolding resolutions_def using resolutions_count [OF d, of i] by simp
  show "length (resolutions c i) \<le> 1" using len by simp
  show "resolutions c i = []" if "is_pending c i"
  proof -
    from that disj have "i \<notin> set (map fst (settled c))" unfolding is_pending_def by blast
    then show ?thesis unfolding resolutions_def by (simp add: resolutions_none)
  qed
  show "length (resolutions c i) = 1" if "i < next_id c" "\<not> is_pending c i"
  proof -
    from that(1) all have "i \<in> set (map fst (pending c)) \<union> set (map fst (settled c))" by simp
    with that(2) have "i \<in> set (map fst (settled c))" unfolding is_pending_def by blast
    with len show ?thesis by simp
  qed
  show "resolutions c i = [] \<and> \<not> is_pending c i" if "next_id c \<le> i"
  proof -
    from that all have "i \<notin> set (map fst (pending c)) \<union> set (map fst (settled c))" by simp
    then show ?thesis unfolding resolutions_def is_pending_def by (simp add: resolutions_none)
  qed
qed

lemma retire_resolution:
  assumes "correlator_inv c" and "is_pending c i"
  shows "resolutions (correlate (ResultFrame i (Inr v)) c) i = [Resolve v]"
    and "resolutions (correlate (ResultFrame i (Inl (code, msg))) c) i = [Reject (RpcError code msg)]"
    and "resolutions (correlate (DeadlineElapsed i) c) i = [Reject TimeoutError]"
    and "resolutions (correlate TransportClose c) i = [Reject TransportClosed]"
proof -
  from inv_facts(2) [OF assms] have none: "filter (\<lambda>(j, r). j = i) (settled c) = []"
    unfolding resolutions_def by simp
  from assms(2) have p: "i \<in> set (map fst (pending c))" unfolding is_pending_def .
  from assms(1) have d: "distinct (map fst (pending c))" unfolding correlator_inv_def by simp
  show "resolutions (correlate (ResultFrame i (Inr v)) c) i = [Resolve v]"
    using p none by (simp add: resolutions_def)
  show "resolutions (correlate (ResultFrame i (Inl (code, msg))) c) i = [Reject (RpcError code msg)]"
    using p none by (simp add: resolutions_def)
  show "resolutions (correlate (DeadlineElapsed i) c) i = [Reject TimeoutError]"
    using p none by (simp add: resolutions_def)
  show "resolutions (correlate TransportClose c) i = [Reject TransportClosed]"
    using none resolutions_closed [OF d p, of "Reject TransportClosed"] by (simp add: resolutions_def)
qed

lemma run_pending:
  "run_correlator [TransportOpen, Call ''slow'' JNull (Some 50) 0]
   = \<lparr>next_id = 1, pending = [(0, \<lparr>call_method = ''slow'', deadline = 50\<rparr>)],
      connected = True, settled = []\<rparr>"
  by (simp add: run_correlator_def initial_correlator_def)

lemma run_sample:
  "run_correlator [TransportOpen, Call ''ping'' JNull None 0, ResultFrame 0 (Inr (JStr ''pong'')),
                   DeadlineElapsed 0]
   = \<lparr>next_id = 1, pending = [], connected = True, settled = [(0, Resolve (JStr ''pong''))]\<rparr>"
  by (simp add: run_correlator_def initial_correlator_def)

text \<open>
  C2: after any sequence of calls, result frames, elapsed deadlines and transport
  events, a call id has at most one terminal resolution; a pending call has none yet; an
  id that was issued and is no longer pending has exactly one; an id not yet issued has
  none. A call issued while connected is pending under a fresh id, and a pending call is
  retired by whichever comes first of its result (resolution with the payload, or
  rejection with \<^verbatim>\<open>RpcError\<close>), its deadline (\<^verbatim>\<open>TimeoutError\<close>) and the closing of the
  transport (\<^verbatim>\<open>TransportClosed\<close>), with that one resolution. The handler \<^verbatim>\<open>gateway:rpc\<close>
  turns a resolution with a payload into a success reply and a rejection into a failure
  reply.
\<close>

theorem rpc_resolved_exactly_once:
  "length (resolutions (run_correlator es) i) \<le> 1
   \<and> (is_pending (run_correlator es) i \<longrightarrow> resolutions (run_correlator es) i = [])
   \<and> (i < next_id (run_correlator es) \<and> \<not> is_pending (run_correlator es) i \<longrightarrow>
        length (resolutions (run_correlator es) i) = 1)
   \<and> (next_id (run_correlator es) \<le> i \<longrightarrow>
        resolutions (run_correlator es) i = [] \<and> \<not> is_pending (run_correlator es) i)
   \<and> (connected (run_correlator es) \<longrightarrow>
        is_pending (correlate (Call m ps t now) (run_correlator es)) (next_id (run_correlator es)))
   \<and> (is_pending (run_correlator es) i \<longrightarrow>
        resolutions (correlate (ResultFrame i (Inr v)) (run_correlator es)) i = [Resolve v]
        \<and> resolutions (correlate (ResultFrame i (Inl (code, msg))) (run_correlator es)) i
            = [Reject (RpcError code msg)]
        \<and> resolutions (correlate (DeadlineElapsed i) (run_correlator es)) i = [Reject TimeoutError]
        \<and> resolutions (correlate TransportClose (run_correlator es)) i = [Reject TransportClosed])
   \<and> handle_gateway_rpc (\<lambda>m ps t. rpc_outcome (Resolve v)) method params timeoutMs
        = Inr (JObj [(''success'', JBool True), (''result'', v)])
   \<and> (\<exists>e. handle_gateway_rpc (\<lambda>m ps t. rpc_outcome (Reject f)) method params timeoutMs = Inr (failure e))"
proof -
  have inv: "correlator_inv (run_correlator es)" by (rule inv_run)
  have call: "connected c \<Longrightarrow> is_pending (correlate (Call m ps t now) c) (next_id c)" for c
    by (simp add: is_pending_def)
  have rej: "\<exists>e. handle_gateway_rpc (\<lambda>m ps t. rpc_outcome (Reject f)) method params timeoutMs = Inr (failure e)"
    by (cases f) (auto simp add: handle_gateway_rpc_def)
  show ?thesis
    using inv_facts [OF inv, of i] retire_resolution [OF inv, of i] call rej
    by (simp add: handle_gateway_rpc_def)
qed

text \<open>A ping that is answered: the later deadline does not resolve it a second time.
  A slow call that is still pending: its deadline or the closing transport resolves it
  once.\<close>

theorem rpc_resolved_exactly_once_witness:
  "0 < next_id (run_correlator [TransportOpen, Call ''ping'' JNull None 0,
          ResultFrame 0 (Inr (JStr ''pong'')), DeadlineElapsed 0])
   \<and> \<not> is_pending (run_correlator [TransportOpen, Call ''ping'' JNull None 0,
          ResultFrame 0 (Inr (JStr ''pong'')), DeadlineElapsed 0]) 0
   \<and> resolutions (run_correlator [TransportOpen, Call ''ping'' JNull None 0,
          ResultFrame 0 (Inr (JStr ''pong'')), DeadlineElapsed 0]) 0 = [Resolve (JStr ''pong'')]
   \<and> connected (run_correlator [TransportOpen, Call ''slow'' JNull (Some 50) 0])
   \<and> is_pending (run_correlator [TransportOpen, Call ''slow'' JNull (Some 50) 0]) 0
   \<and> resolutions (run_correlator [TransportOpen, Call ''slow'' JNull (Some 50) 0]) 0 = []
   \<and> resolutions (correlate (DeadlineElapsed 0)
          (run_correlator [TransportOpen, Call ''slow'' JNull (Some 50) 0])) 0 = [Reject TimeoutError]
   \<and> resolutions (correlate TransportClose
          (run_correlator [TransportOpen, Call ''slow'' JNull (Some 50) 0])) 0 = [Reject TransportClosed]
   \<and> 1 \<le> next_id (run_correlator [TransportOpen, Call ''slow'' JNull (Some 50) 0])
   \<and> resolutions (run_correlator [TransportOpen, Call ''slow'' JNull (Some 50) 0]) 1 = []"
  using rpc_resolved_exactly_once [of "[TransportOpen, Call ''ping'' JNull None 0,
          ResultFrame 0 (Inr (JStr ''pong'')), DeadlineElapsed 0]" 0]
    rpc_resolved_exactly_once [of "[TransportOpen, Call ''slow'' JNull (Some 50) 0]" 0]
    rpc_resolved_exactly_once [of "[TransportOpen, Call ''slow'' JNull (Some 50) 0]" 1]
  by (simp add: run_sample run_pending is_pending_def resolutions_def)

section \<open>The status snapshot\<close>

lemma status_inv_initial: "status_inv initial_status"
  by (simp add: status_inv_def initial_status_def)

lemma status_inv_step: "status_inv st \<Longrightarrow> status_inv (lifecycle e st)"
  by (cases e) (auto simp add: status_inv_def lifecycle_start_def lifecycle_stop_def)

lemma status_inv_run: "status_inv (run_lifecycle es)"
  unfolding run_lifecycle_def
  by (induction es rule: rev_induct) (simp_all add: status_inv_initial status_inv_step)

lemma run_stopped:
  "run_lifecycle [StartRequested, Ready 18789, StopRequested]
     = \<lparr>state = Stopped, port = None, error = None\<rparr>"
  by (simp add: run_lifecycle_def initial_status_def lifecycle_start_def lifecycle_stop_def)

lemma run_running:
  "run_lifecycle [StartRequested, Ready 18789] = \<lparr>state = Running, port = Some 18789, error = None\<rparr>"
  by (simp add: run_lifecycle_def initial_status_def lifecycle_start_def)

lemma run_crashed:
  "run_lifecycle [StartRequested, Ready 18789, ProcessExited 1]
     = \<lparr>state = Error, port = None, error = Some ''1''\<rparr>"
  by (simp add: run_lifecycle_def initial_status_def lifecycle_start_def show_int_def
      digits.simps digit_char_def)

text \<open>
  C3, as stated, fails: after a start and a stop the state is \<^verbatim>\<open>Stopped\<close>, and the
  Control UI accessor still reports a port, the default 18789.
\<close>

theorem control_ui_reports_port_while_stopped:
  "run_lifecycle [StartRequested, Ready 18789, StopRequested]
     = \<lparr>state = Stopped, port = None, error = None\<rparr>
   \<and> handle_gateway_getControlUiUrl
       (Inr \<lparr>state = Stopped, port = None, error = None\<rparr>) (Inr ''tok'')
     = Inr (JObj [(''success'', JBool True),
                  (''url'', JStr ''http://127.0.0.1:18789/?token=tok''),
                  (''port'', JNum 18789), (''token'', JStr ''tok'')])"
  by (simp add: run_stopped handle_gateway_getControlUiUrl_def show_int_18789 encode_tok)

text \<open>
  C3 (amended): in every status snapshot the lifecycle reaches, the port is set only
  when the state is \<^verbatim>\<open>Running\<close> and the error only when the state is \<^verbatim>\<open>Error\<close>. The
  Control UI accessor nevertheless reports a port in every state: while the state is
  not \<^verbatim>\<open>Running\<close> it reports the default 18789, unless the token holds an unpaired
  surrogate, on which it answers \<^verbatim>\<open>success: false\<close> and no port.
\<close>

theorem status_snapshot_invariant:
  "(port (run_lifecycle es) \<noteq> None \<longrightarrow> state (run_lifecycle es) = Running)
   \<and> (error (run_lifecycle es) \<noteq> None \<longrightarrow> state (run_lifecycle es) = Error)
   \<and> (state (run_lifecycle es) \<noteq> Running \<longrightarrow>
        (if has_unpaired_surrogate token
         then handle_gateway_getControlUiUrl (Inr (run_lifecycle es)) (Inr token)
                = Inr (failure URIError)
         else (\<exists>url. handle_gateway_getControlUiUrl (Inr (run_lifecycle es)) (Inr token)
                = Inr (JObj [(''success'', JBool True), (''url'', JStr url),
                             (''port'', JNum 18789), (''token'', JStr token)]))))"
  using status_inv_run [of es]
  by (auto simp add: status_inv_def handle_gateway_getControlUiUrl_def encodeURIComponent_def)

text \<open>A running gateway has a port; a crashed one has an error, and the accessor still
  reports the default port.\<close>

theorem status_snapshot_invariant_witness:
  "port (run_lifecycle [StartRequested, Ready 18789]) \<noteq> None
   \<and> state (run_lifecycle [StartRequested, Ready 18789]) = Running
   \<and> error (run_lifecycle [StartRequested, Ready 18789, ProcessExited 1]) \<noteq> None
   \<and> state (run_lifecycle [StartRequested, Ready 18789, ProcessExited 1]) = Error
   \<and> state (run_lifecycle [StartRequested, Ready 18789, ProcessExited 1]) \<noteq> Running
   \<and> \<not> has_unpaired_surrogate ''tok''
   \<and> handle_gateway_getControlUiUrl
        (Inr (run_lifecycle [StartRequested, Ready 18789, ProcessExited 1])) (Inr ''tok'')
      = Inr (JObj [(''success'', JBool True),
                   (''url'', JStr ''http://127.0.0.1:18789/?token=tok''),
                   (''port'', JNum 18789), (''token'', JStr ''tok'')])"
  using status_snapshot_invariant [of "[StartRequested, Ready 18789]"]
    status_snapshot_invariant [of "[StartRequested, Ready 18789, ProcessExited 1]" "''tok''"]
  by (simp add: run_running run_crashed handle_gateway_getControlUiUrl_def show_int_18789 encode_tok)

section \<open>The Control UI accessor\<close>

lemma encode_euro: "encodeURIComponent [CHR ''a'', CHR ''&'', CHR 0xE2, CHR 0x82, CHR 0xAC] = Inr ''a%26%E2%82%AC''"
  by code_simp

text \<open>
  C6, as stated, fails: with the status and the stored token both read, the accessor
  still answers \<^verbatim>\<open>success: false\<close> when the token holds an unpaired surrogate, on which
  \<^verbatim>\<open>encodeURIComponent\<close> throws a URIError inside the \<^verbatim>\<open>try\<close>.
\<close>

theorem control_ui_fails_on_unpaired_surrogate:
  "handle_gateway_getControlUiUrl
     (Inr \<lparr>state = Running, port = Some 18789, error = None\<rparr>)
     (Inr [CHR 0xED, CHR 0xA0, CHR 0x80])
   = Inr (JObj [(''success'', JBool False), (''error'', JStr ''URIError: URI malformed'')])"
  by (simp add: handle_gateway_getControlUiUrl_def encodeURIComponent_def failure_def URIError_def)

text \<open>
  C6 (amended): whenever the status and the stored token can be read and the token
  holds no unpaired surrogate, the accessor returns success with \<^verbatim>\<open>{ url, port, token }\<close>,
  where \<^verbatim>\<open>url\<close> is \<^verbatim>\<open>http://127.0.0.1:<port>/?token=<encoded token>\<close> and \<^verbatim>\<open>port\<close> is the
  port of the status when one is set and 18789 otherwise (a port of 0 is falsy and is
  replaced by the default like a missing one; at every other status the port is the one
  of the status). The encoded token consists of unreserved characters and percent
  escapes only. On a token that holds an unpaired surrogate the accessor answers
  \<^verbatim>\<open>success: false\<close> with the URIError.
\<close>

theorem control_ui_accessor:
  "(\<not> has_unpaired_surrogate token \<longrightarrow>
      handle_gateway_getControlUiUrl (Inr st) (Inr token) =
        Inr (JObj [(''success'', JBool True),
                   (''url'', JStr (''http://127.0.0.1:''
                        @ show_int (case port st of Some q \<Rightarrow> if q \<noteq> 0 then q else 18789 | None \<Rightarrow> 18789)
                        @ ''/?token='' @ concat (map encode_char token))),
                   (''port'', JNum (case port st of Some q \<Rightarrow> if q \<noteq> 0 then q else 18789 | None \<Rightarrow> 18789)),
                   (''token'', JStr token)]))
   \<and> (\<not> has_unpaired_surrogate token \<and> port st \<noteq> Some 0 \<longrightarrow>
        (\<exists>url. handle_gateway_getControlUiUrl (Inr st) (Inr token) =
           Inr (JObj [(''success'', JBool True), (''url'', JStr url),
                      (''port'', JNum (case port st of Some q \<Rightarrow> q | None \<Rightarrow> 18789)),
                      (''token'', JStr token)])))
   \<and> list_all uri_safe (concat (map encode_char token))
   \<and> (has_unpaired_surrogate token \<longrightarrow>
        handle_gateway_getControlUiUrl (Inr st) (Inr token) = Inr (failure URIError))"
  by (auto simp add: handle_gateway_getControlUiUrl_def encodeURIComponent_def Let_def encoded_safe
      split: option.splits)

text \<open>A token with an ampersand and a euro sign at port 18790, and a token that is a
  lone low surrogate.\<close>

theorem control_ui_accessor_witness:
  "\<not> has_unpaired_surrogate [CHR ''a'', CHR ''&'', CHR 0xE2, CHR 0x82, CHR 0xAC]
   \<and> handle_gateway_getControlUiUrl
     (Inr \<lparr>state = Running, port = Some 18790, error = None\<rparr>)
     (Inr [CHR ''a'', CHR ''&'', CHR 0xE2, CHR 0x82, CHR 0xAC])
   = Inr (JObj [(''success'', JBool True),
                (''url'', JStr ''http://127.0.0.1:18790/?token=a%26%E2%82%AC''),
                (''port'', JNum 18790),
                (''token'', JStr [CHR ''a'', CHR ''&'', CHR 0xE2, CHR 0x82, CHR 0xAC])])
   \<and> has_unpaired_surrogate [CHR 0xED, CHR 0xB0, CHR 0x80]
   \<and> handle_gateway_getControlUiUrl
     (Inr \<lparr>state = Running, port = Some 18790, error = None\<rparr>)
     (Inr [CHR 0xED, CHR 0xB0, CHR 0x80])
   = Inr (JObj [(''success'', JBool False), (''error'', JStr ''URIError: URI malformed'')])"
  using control_ui_accessor [of "[CHR ''a'', CHR ''&'', CHR 0xE2, CHR 0x82, CHR 0xAC]"
      "\<lparr>state = Running, port = Some 18790, error = None\<rparr>"]
    control_ui_accessor [of "[CHR 0xED, CHR 0xB0, CHR 0x80]"
      "\<lparr>state = Running, port = Some 18790, error = None\<rparr>"]
    encode_euro
  by (simp add: show_int_18790 encodeURIComponent_def failure_def URIError_def)

section \<open>Facts about the auth profiles store\<close>

lemma json_written_id: "is_json v \<Longrightarrow> json_written v = v"
proof (induction v)
  case (JArr xs)
  then show ?case by (simp add: list_all_iff map_idI)
next
  case (JObj kvs)
  have f: "filter (\<lambda>kv. snd kv \<noteq> JUndefined) kvs = kvs"
    using JObj.prems by (auto simp add: list_all_iff filter_id_conv)
  have "map (\<lambda>kv. (fst kv, json_written (snd kv))) kvs = kvs"
  proof (rule map_idI)
    fix kv assume m: "kv \<in> set kvs"
    then have "is_json (snd kv)" using JObj.prems by (simp add: list_all_iff)
    moreover have "snd kv \<in> Basic_BNFs.snds kv" by (cases kv) simp
    ultimately have "json_written (snd kv) = snd kv" using JObj.IH m by blast
    then show "(fst kv, json_written (snd kv)) = kv" by simp
  qed
  with f show ?case by simp
qed simp_all

lemma is_json_lookup:
  "list_all (\<lambda>kv. is_json (snd kv)) kvs \<Longrightarrow> map_of kvs k = Some v \<Longrightarrow> is_json v"
proof -
  assume a: "list_all (\<lambda>kv. is_json (snd kv)) kvs" and m: "map_of kvs k = Some v"
  from m have "(k, v) \<in> set kvs" by (rule map_of_SomeD)
  with a have "is_json (snd (k, v))" unfolding list_all_iff by blast
  then show ?thesis by simp
qed

lemma is_json_update:
  "list_all (\<lambda>kv. is_json (snd kv)) kvs \<Longrightarrow> is_json v \<Longrightarrow>
     list_all (\<lambda>kv. is_json (snd kv)) (AList.update k v kvs)"
  by (induction kvs) auto

lemma own_update: "own (AList.update k v kvs) k' = (if k' = k then v else own kvs k')"
  by (simp add: own_def update_conv')

lemma own_Some: "map_of kvs k = Some v \<Longrightarrow> own kvs k = v"
  by (simp add: own_def)

lemma own_None: "map_of kvs k = None \<Longrightarrow> own kvs k = JUndefined"
  by (simp add: own_def)

lemma typed_fresh: "typed_store prov fresh_store"
  by (simp add: typed_store_def fresh_store_def AUTH_STORE_VERSION_def)

lemma typed_storeD:
  assumes "typed_store prov kvs"
  shows "list_all (\<lambda>kv. is_json (snd kv)) kvs"
    and "\<exists>n. own kvs ''version'' = JNum n \<and> n \<noteq> 0"
    and "\<exists>pk. own kvs ''profiles'' = JObj pk"
    and "own kvs ''order'' = JUndefined
         \<or> (\<exists>ok. own kvs ''order'' = JObj ok
               \<and> (map_of ok prov = None \<or> (\<exists>ids. map_of ok prov = Some (JArr ids))))"
    and "own kvs ''lastGood'' = JUndefined \<or> (\<exists>lk. own kvs ''lastGood'' = JObj lk)"
proof -
  from assms show "list_all (\<lambda>kv. is_json (snd kv)) kvs" by (simp add: typed_store_def)
  from assms have "case map_of kvs ''version'' of Some (JNum n) \<Rightarrow> n \<noteq> 0 | _ \<Rightarrow> False"
    by (simp add: typed_store_def)
  then show "\<exists>n. own kvs ''version'' = JNum n \<and> n \<noteq> 0"
  proof (cases "map_of kvs ''version''")
    case None
    assume "case map_of kvs ''version'' of Some (JNum n) \<Rightarrow> n \<noteq> 0 | _ \<Rightarrow> False"
    with None show ?thesis by simp
  next
    case (Some v)
    assume "case map_of kvs ''version'' of Some (JNum n) \<Rightarrow> n \<noteq> 0 | _ \<Rightarrow> False"
    with Some show ?thesis by (cases v) (simp_all add: own_def)
  qed
  from assms have "case map_of kvs ''profiles'' of Some (JObj pk) \<Rightarrow> True | _ \<Rightarrow> False"
    by (simp add: typed_store_def)
  then show "\<exists>pk. own kvs ''profiles'' = JObj pk"
  proof (cases "map_of kvs ''profiles''")
    case None
    assume "case map_of kvs ''profiles'' of Some (JObj pk) \<Rightarrow> True | _ \<Rightarrow> False"
    with None show ?thesis by simp
  next
    case (Some v)
    assume "case map_of kvs ''profiles'' of Some (JObj pk) \<Rightarrow> True | _ \<Rightarrow> False"
    with Some show ?thesis by (cases v) (simp_all add: own_def)
  qed
  from assms have "case map_of kvs ''order'' of
            None \<Rightarrow> True
          | Some (JObj ok) \<Rightarrow> (case map_of ok prov of None \<Rightarrow> True | Some (JArr ids) \<Rightarrow> True | _ \<Rightarrow> False)
          | _ \<Rightarrow> False"
    by (simp add: typed_store_def)
  then show "own kvs ''order'' = JUndefined
         \<or> (\<exists>ok. own kvs ''order'' = JObj ok
               \<and> (map_of ok prov = None \<or> (\<exists>ids. map_of ok prov = Some (JArr ids))))"
  proof (cases "map_of kvs ''order''")
    case None
    then show ?thesis by (simp add: own_def)
  next
    case (Some ord)
    assume c: "case map_of kvs ''order'' of
            None \<Rightarrow> True
          | Some (JObj ok) \<Rightarrow> (case map_of ok prov of None \<Rightarrow> True | Some (JArr ids) \<Rightarrow> True | _ \<Rightarrow> False)
          | _ \<Rightarrow> False"
    with Some obtain ok where o: "ord = JObj ok"
      and e: "case map_of ok prov of None \<Rightarrow> True | Some (JArr ids) \<Rightarrow> True | _ \<Rightarrow> False"
      by (cases ord) simp_all
    have "map_of ok prov = None \<or> (\<exists>ids. map_of ok prov = Some (JArr ids))"
    proof (cases "map_of ok prov")
      case None
      then show ?thesis by simp
    next
      case (Some v)
      with e show ?thesis by (cases v) simp_all
    qed
    with Some o show ?thesis by (simp add: own_def)
  qed
  from assms have "case map_of kvs ''lastGood'' of None \<Rightarrow> True | Some (JObj lk) \<Rightarrow> True | _ \<Rightarrow> False"
    by (simp add: typed_store_def)
  then show "own kvs ''lastGood'' = JUndefined \<or> (\<exists>lk. own kvs ''lastGood'' = JObj lk)"
  proof (cases "map_of kvs ''lastGood''")
    case None
    then show ?thesis by (simp add: own_def)
  next
    case (Some lg)
    assume "case map_of kvs ''lastGood'' of None \<Rightarrow> True | Some (JObj lk) \<Rightarrow> True | _ \<Rightarrow> False"
    with Some obtain lk where "lg = JObj lk" by (cases lg) simp_all
    with Some show ?thesis by (simp add: own_def)
  qed
qed

lemma read_valid:
  assumes "typed_store prov kvs" and "d (getAuthProfilesPath a) = Some (Content (JObj kvs))"
  shows "readAuthProfiles a d = kvs"
proof -
  from typed_storeD(2) [OF assms(1)] obtain n where "own kvs ''version'' = JNum n" "n \<noteq> 0" by blast
  moreover from typed_storeD(3) [OF assms(1)] obtain pk where "own kvs ''profiles'' = JObj pk" by blast
  ultimately show ?thesis using assms(2) by (simp add: readAuthProfiles_def)
qed

lemma read_typed:
  assumes "typed_file prov (d (getAuthProfilesPath a))"
  shows "typed_store prov (readAuthProfiles a d)"
proof (cases "d (getAuthProfilesPath a)")
  case None
  then show ?thesis by (simp add: readAuthProfiles_def typed_fresh)
next
  case (Some f)
  show ?thesis
  proof (cases f)
    case Garbage
    with Some show ?thesis by (simp add: readAuthProfiles_def typed_fresh)
  next
    case (Content v)
    with Some assms have "case v of JObj kvs \<Rightarrow> typed_store prov kvs | _ \<Rightarrow> False"
      by (simp add: typed_file_def)
    then obtain kvs where v: "v = JObj kvs" and t: "typed_store prov kvs"
      by (cases v) simp_all
    from Some Content v have "d (getAuthProfilesPath a) = Some (Content (JObj kvs))" by simp
    with t have "readAuthProfiles a d = kvs" by (rule read_valid)
    with t show ?thesis by simp
  qed
qed

lemma read_written:
  assumes "typed_store prov kvs"
  shows "readAuthProfiles a (d(getAuthProfilesPath a := Some (Content (JObj kvs)))) = kvs"
  using assms by (rule read_valid) simp

lemma proto_not_key: "prov \<notin> set OBJECT_PROTOTYPE_KEYS \<Longrightarrow> prov \<noteq> ''__proto__''"
  by (auto simp add: OBJECT_PROTOTYPE_KEYS_def)

lemma ids_json:
  assumes "list_all (\<lambda>kv. is_json (snd kv)) kvs" and "own kvs ''order'' = JObj ok"
    and "map_of ok prov = Some (JArr ids)"
  shows "list_all is_json ids"
proof -
  from assms(2) have "map_of kvs ''order'' = Some (JObj ok)"
    by (cases "map_of kvs ''order''") (simp_all add: own_def)
  with assms(1) have "is_json (JObj ok)" by (rule is_json_lookup)
  then have "list_all (\<lambda>kv. is_json (snd kv)) ok" by simp
  from this assms(3) have "is_json (JArr ids)" by (rule is_json_lookup)
  then show ?thesis by simp
qed

lemma own_json:
  assumes "list_all (\<lambda>kv. is_json (snd kv)) kvs" and "own kvs key = JObj xs"
  shows "list_all (\<lambda>kv. is_json (snd kv)) xs"
proof -
  from assms(2) have "map_of kvs key = Some (JObj xs)"
    by (cases "map_of kvs key") (simp_all add: own_def)
  with assms(1) have "is_json (JObj xs)" by (rule is_json_lookup)
  then show ?thesis by simp
qed

lemma typed_upsert:
  assumes t: "typed_store prov kvs"
  shows "typed_store prov (upsert prov k kvs)"
proof -
  note j = typed_storeD(1) [OF t]
  from typed_storeD(2) [OF t] obtain n where n: "own kvs ''version'' = JNum n" "n \<noteq> 0" by blast
  from typed_storeD(3) [OF t] obtain pk where pk: "own kvs ''profiles'' = JObj pk" by blast
  let ?pid = "prov @ '':default''"
  let ?entry = "JObj [(''type'', JStr ''api_key''), (''provider'', JStr prov), (''key'', JStr k)]"
  let ?ord = "case own kvs ''order'' of JObj ok \<Rightarrow> ok | _ \<Rightarrow> []"
  let ?ids = "case map_of ?ord prov of Some (JArr ids) \<Rightarrow> ids | _ \<Rightarrow> []"
  let ?lg = "case own kvs ''lastGood'' of JObj lk \<Rightarrow> lk | _ \<Rightarrow> []"
  have jpk: "list_all (\<lambda>kv. is_json (snd kv)) pk" using j pk by (rule own_json)
  have jord: "list_all (\<lambda>kv. is_json (snd kv)) ?ord"
    using typed_storeD(4) [OF t] own_json [OF j] by auto
  have jlg: "list_all (\<lambda>kv. is_json (snd kv)) ?lg"
    using typed_storeD(5) [OF t] own_json [OF j] by auto
  have jids: "list_all is_json ?ids"
    using typed_storeD(4) [OF t] ids_json [OF j] by auto
  have e: "is_json ?entry" by simp
  have j1: "is_json (JObj (AList.update ?pid ?entry pk))"
    using is_json_update [OF jpk e] by simp
  have j2: "is_json (JObj (AList.update prov
              (JArr (if JStr ?pid \<in> set ?ids then ?ids else ?ids @ [JStr ?pid])) ?ord))"
    using is_json_update [OF jord, of "JArr (if JStr ?pid \<in> set ?ids then ?ids else ?ids @ [JStr ?pid])" prov]
      jids by simp
  have j3: "is_json (JObj (AList.update prov (JStr ?pid) ?lg))"
    using is_json_update [OF jlg, of "JStr ?pid" prov] by simp
  have v: "map_of kvs ''version'' = Some (JNum n)"
    using n(1) by (cases "map_of kvs ''version''") (simp_all add: own_def)
  show ?thesis
    unfolding typed_store_def upsert_def Let_def
    using is_json_update [OF is_json_update [OF is_json_update [OF j j1] j2] j3] v n(2) pk
    by (simp add: update_conv')
qed

lemma upsert_idem:
  assumes t: "typed_store prov kvs"
  shows "upsert prov k (upsert prov k kvs) = upsert prov k kvs"
proof -
  from typed_storeD(3) [OF t] obtain pk where pk: "own kvs ''profiles'' = JObj pk" by blast
  show ?thesis
    using pk
    by (simp add: upsert_def Let_def own_def update_conv' update_triv)
qed

lemma save_typed:
  assumes t: "typed_store prov kvs" and p: "prov \<notin> set OBJECT_PROTOTYPE_KEYS"
    and r: "readAuthProfiles a d = kvs"
  shows "saveProviderKeyToOpenClaw None prov k a d
           = (Inr (), d(getAuthProfilesPath a := Some (Content (JObj (upsert prov k kvs)))))"
proof -
  from typed_storeD(3) [OF t] obtain pk where pk: "own kvs ''profiles'' = JObj pk" by blast
  note q = proto_not_key [OF p]
  have "is_json (JObj (upsert prov k kvs))"
    using typed_storeD(1) [OF typed_upsert [OF t]] by simp
  then have w: "json_written (JObj (upsert prov k kvs)) = JObj (upsert prov k kvs)"
    by (rule json_written_id)
  have "saveProviderKeyToOpenClaw None prov k a d
           = (Inr (), d(getAuthProfilesPath a :=
                 Some (Content (json_written (JObj (upsert prov k kvs))))))"
    using typed_storeD(4) [OF t] typed_storeD(5) [OF t] pk p q r
    by (auto simp add: saveProviderKeyToOpenClaw_def upsert_def Let_def own_update
        add_to_order_def include_profile_def set_last_good_def writeAuthProfiles_def)
  with w show ?thesis by (simp only:)
qed


lemma own_upsert_profiles:
  "own kvs ''profiles'' = JObj pk \<Longrightarrow>
     own (upsert prov k kvs) ''profiles''
       = JObj (AList.update (prov @ '':default'')
                 (JObj [(''type'', JStr ''api_key''), (''provider'', JStr prov), (''key'', JStr k)]) pk)"
  by (simp add: upsert_def Let_def own_update)

lemma own_upsert_order:
  "own (upsert prov k kvs) ''order''
     = JObj (AList.update prov
               (JArr (if JStr (prov @ '':default'')
                          \<in> set (case map_of (case own kvs ''order'' of JObj ok \<Rightarrow> ok | _ \<Rightarrow> []) prov of
                                   Some (JArr ids) \<Rightarrow> ids | _ \<Rightarrow> [])
                      then (case map_of (case own kvs ''order'' of JObj ok \<Rightarrow> ok | _ \<Rightarrow> []) prov of
                                   Some (JArr ids) \<Rightarrow> ids | _ \<Rightarrow> [])
                      else (case map_of (case own kvs ''order'' of JObj ok \<Rightarrow> ok | _ \<Rightarrow> []) prov of
                                   Some (JArr ids) \<Rightarrow> ids | _ \<Rightarrow> []) @ [JStr (prov @ '':default'')]))
               (case own kvs ''order'' of JObj ok \<Rightarrow> ok | _ \<Rightarrow> []))"
  by (simp add: upsert_def Let_def own_update)

lemma own_upsert_lastGood:
  "own (upsert prov k kvs) ''lastGood''
     = JObj (AList.update prov (JStr (prov @ '':default''))
               (case own kvs ''lastGood'' of JObj lk \<Rightarrow> lk | _ \<Rightarrow> []))"
  by (simp add: upsert_def Let_def own_update)

lemma count_appended:
  "count_list (if x \<in> set xs then xs else xs @ [x]) x = max 1 (count_list xs x)"
  by (auto simp add: count_list_0_iff max_def Suc_le_eq)



lemma stored_order_ids:
  assumes "typed_store prov kvs"
  shows "(case map_of (case own kvs ''order'' of JObj ok \<Rightarrow> ok | _ \<Rightarrow> []) prov of
            Some (JArr ids) \<Rightarrow> ids | _ \<Rightarrow> [])
         = (case own kvs ''order'' of
              JObj ok \<Rightarrow> (case map_of ok prov of Some (JArr ids) \<Rightarrow> ids | _ \<Rightarrow> [])
            | _ \<Rightarrow> [])"
  using typed_storeD(4) [OF assms] by auto

lemma openai_no_prototype_key: "''openai'' \<notin> set OBJECT_PROTOTYPE_KEYS"
  by (simp add: OBJECT_PROTOTYPE_KEYS_def)


lemma save_into_profiles_array_writes_no_entry:
  "stored_profile
     (snd (saveProviderKeyToOpenClaw None ''openai'' ''sk-1'' ''main''
        (\<lambda>path. if path = getAuthProfilesPath ''main''
           then Some (Content (JObj [(''version'', JNum 1), (''profiles'', JArr [])]))
           else None)))
     ''main'' ''openai:default'' = None"
  by (simp add: saveProviderKeyToOpenClaw_def readAuthProfiles_def own_def Let_def
      add_to_order_def set_last_good_def writeAuthProfiles_def openai_no_prototype_key
      stored_profile_def)

section \<open>The channels of a provider key\<close>
















section \<open>Idempotence of \<^verbatim>\<open>saveProviderKeyToOpenClaw\<close>\<close>

text \<open>
  C8, as stated, fails: a stored version \<^verbatim>\<open>1e999\<close> is read as \<^verbatim>\<open>Infinity\<close>, which is
  truthy, so the first save keeps the store and writes the version as \<^verbatim>\<open>null\<close>; the
  second save finds a falsy version, starts from a fresh store and drops the profile
  of the other provider. Two saves leave another store than one.
\<close>

theorem save_twice_drops_profiles:
  "saveProviderKeyToOpenClaw None ''openai'' ''sk-1'' ''main''
     (\<lambda>path. if path = getAuthProfilesPath ''main''
        then Some (Content (JObj
          [(''version'', JInfinity False),
           (''profiles'', JObj [(''anthropic:default'',
              JObj [(''type'', JStr ''api_key''), (''provider'', JStr ''anthropic''),
                    (''key'', JStr ''sk-0'')])])]))
        else None)
   = (Inr (),
      (\<lambda>path. if path = getAuthProfilesPath ''main''
        then Some (Content (JObj
          [(''version'', JNull),
           (''profiles'', JObj
              [(''anthropic:default'',
                JObj [(''type'', JStr ''api_key''), (''provider'', JStr ''anthropic''),
                      (''key'', JStr ''sk-0'')]),
               (''openai:default'',
                JObj [(''type'', JStr ''api_key''), (''provider'', JStr ''openai''),
                      (''key'', JStr ''sk-1'')])]),
           (''order'', JObj [(''openai'', JArr [JStr ''openai:default''])]),
           (''lastGood'', JObj [(''openai'', JStr ''openai:default'')])]))
        else None))
   \<and> saveProviderKeyToOpenClaw None ''openai'' ''sk-1'' ''main''
     (\<lambda>path. if path = getAuthProfilesPath ''main''
        then Some (Content (JObj
          [(''version'', JNull),
           (''profiles'', JObj
              [(''anthropic:default'',
                JObj [(''type'', JStr ''api_key''), (''provider'', JStr ''anthropic''),
                      (''key'', JStr ''sk-0'')]),
               (''openai:default'',
                JObj [(''type'', JStr ''api_key''), (''provider'', JStr ''openai''),
                      (''key'', JStr ''sk-1'')])]),
           (''order'', JObj [(''openai'', JArr [JStr ''openai:default''])]),
           (''lastGood'', JObj [(''openai'', JStr ''openai:default'')])]))
        else None)
   = (Inr (),
      (\<lambda>path. if path = getAuthProfilesPath ''main''
        then Some (Content (JObj
          [(''version'', JNum 1),
           (''profiles'', JObj
              [(''openai:default'',
                JObj [(''type'', JStr ''api_key''), (''provider'', JStr ''openai''),
                      (''key'', JStr ''sk-1'')])]),
           (''order'', JObj [(''openai'', JArr [JStr ''openai:default''])]),
           (''lastGood'', JObj [(''openai'', JStr ''openai:default'')])]))
        else None))"
  by (simp add: saveProviderKeyToOpenClaw_def readAuthProfiles_def own_def Let_def
      add_to_order_def set_last_good_def writeAuthProfiles_def fresh_store_def
      AUTH_STORE_VERSION_def openai_no_prototype_key fun_eq_iff)

text \<open>
  C8 (amended): for a provider name that is no property name of \<^verbatim>\<open>Object.prototype\<close>,
  an \<^verbatim>\<open>auth-profiles.json\<close> that is missing, unreadable or holds a store of the declared
  type, and writes that succeed, the first save returns, and a second save with the
  same arguments returns and leaves the disk of the first. In the store then on disk
  the profile \<^verbatim>\<open><provider>:default\<close> is the saved entry and every other profile is as
  before, the order list of the provider is the earlier list with the profile id
  appended only where it was missing (so the id occurs as often as before, or once),
  \<^verbatim>\<open>lastGood\<close> of the provider is the profile id, and the file is again of the declared
  type.
\<close>

theorem save_idempotent:
  assumes p: "prov \<notin> set OBJECT_PROTOTYPE_KEYS"
    and f: "typed_file prov (d (getAuthProfilesPath a))"
  shows "fst (saveProviderKeyToOpenClaw None prov k a d) = Inr ()
   \<and> saveProviderKeyToOpenClaw None prov k a (snd (saveProviderKeyToOpenClaw None prov k a d))
       = (Inr (), snd (saveProviderKeyToOpenClaw None prov k a d))
   \<and> stored_profile (snd (saveProviderKeyToOpenClaw None prov k a d)) a (prov @ '':default'')
       = Some (JObj [(''type'', JStr ''api_key''), (''provider'', JStr prov), (''key'', JStr k)])
   \<and> stored_profile (snd (saveProviderKeyToOpenClaw None prov k a d)) a
       = (stored_profile d a)(prov @ '':default'' \<mapsto>
            JObj [(''type'', JStr ''api_key''), (''provider'', JStr prov), (''key'', JStr k)])
   \<and> stored_order (snd (saveProviderKeyToOpenClaw None prov k a d)) a prov
       = (if JStr (prov @ '':default'') \<in> set (stored_order d a prov)
          then stored_order d a prov
          else stored_order d a prov @ [JStr (prov @ '':default'')])
   \<and> count_list (stored_order (snd (saveProviderKeyToOpenClaw None prov k a d)) a prov)
         (JStr (prov @ '':default''))
       = max 1 (count_list (stored_order d a prov) (JStr (prov @ '':default'')))
   \<and> stored_lastGood (snd (saveProviderKeyToOpenClaw None prov k a d)) a prov
       = Some (JStr (prov @ '':default''))
   \<and> typed_file prov (snd (saveProviderKeyToOpenClaw None prov k a d) (getAuthProfilesPath a))"
proof -
  let ?s = "readAuthProfiles a d"
  let ?pid = "prov @ '':default''"
  let ?entry = "JObj [(''type'', JStr ''api_key''), (''provider'', JStr prov), (''key'', JStr k)]"
  let ?d1 = "d(getAuthProfilesPath a := Some (Content (JObj (upsert prov k ?s))))"
  have t: "typed_store prov ?s" using f by (rule read_typed)
  have tu: "typed_store prov (upsert prov k ?s)" using t by (rule typed_upsert)
  have s1: "saveProviderKeyToOpenClaw None prov k a d = (Inr (), ?d1)"
    using t p refl by (rule save_typed)
  have r1: "readAuthProfiles a ?d1 = upsert prov k ?s" using tu by (rule read_written)
  have "saveProviderKeyToOpenClaw None prov k a ?d1
          = (Inr (), ?d1(getAuthProfilesPath a :=
                Some (Content (JObj (upsert prov k (upsert prov k ?s))))))"
    using tu p r1 by (rule save_typed)
  then have s2: "saveProviderKeyToOpenClaw None prov k a ?d1 = (Inr (), ?d1)"
    by (simp add: upsert_idem [OF t])
  from typed_storeD(3) [OF t] obtain pk where pk: "own ?s ''profiles'' = JObj pk" by blast
  have pr: "stored_profile ?d1 a = (stored_profile d a)(?pid \<mapsto> ?entry)"
    by (simp add: stored_profile_def r1 own_upsert_profiles [OF pk] pk update_conv fun_eq_iff)
  have o: "stored_order ?d1 a prov
       = (if JStr ?pid \<in> set (stored_order d a prov) then stored_order d a prov
          else stored_order d a prov @ [JStr ?pid])"
    unfolding stored_order_def r1 own_upsert_order stored_order_ids [OF t]
    by (simp add: update_conv')
  have c: "count_list (stored_order ?d1 a prov) (JStr ?pid)
       = max 1 (count_list (stored_order d a prov) (JStr ?pid))"
    unfolding o by (rule count_appended)
  have lg: "stored_lastGood ?d1 a prov = Some (JStr ?pid)"
    by (simp add: stored_lastGood_def r1 own_upsert_lastGood update_conv')
  have tf: "typed_file prov (?d1 (getAuthProfilesPath a))"
    using tu by (simp add: typed_file_def)
  show ?thesis
    unfolding s1 snd_conv fst_conv
    using s2 pr o c lg tf by (simp only: fun_upd_same simp_thms)
qed

text \<open>Saving an OpenAI key twice into a store with an Anthropic profile and an order
  list that holds the profile id already: the list stays as it is.\<close>

theorem save_idempotent_witness:
  "''openai'' \<notin> set OBJECT_PROTOTYPE_KEYS
   \<and> typed_file ''openai''
       (Some (Content (JObj
          [(''version'', JNum 1),
           (''profiles'', JObj [(''anthropic:default'',
              JObj [(''type'', JStr ''api_key''), (''provider'', JStr ''anthropic''),
                    (''key'', JStr ''sk-0'')])]),
           (''order'', JObj [(''openai'', JArr [JStr ''openai:default''])])])))
   \<and> saveProviderKeyToOpenClaw None ''openai'' ''sk-2'' ''main''
       (snd (saveProviderKeyToOpenClaw None ''openai'' ''sk-2'' ''main''
          (\<lambda>path. if path = getAuthProfilesPath ''main''
             then Some (Content (JObj
               [(''version'', JNum 1),
                (''profiles'', JObj [(''anthropic:default'',
                   JObj [(''type'', JStr ''api_key''), (''provider'', JStr ''anthropic''),
                         (''key'', JStr ''sk-0'')])]),
                (''order'', JObj [(''openai'', JArr [JStr ''openai:default''])])]))
             else None)))
     = (Inr (),
        snd (saveProviderKeyToOpenClaw None ''openai'' ''sk-2'' ''main''
          (\<lambda>path. if path = getAuthProfilesPath ''main''
             then Some (Content (JObj
               [(''version'', JNum 1),
                (''profiles'', JObj [(''anthropic:default'',
                   JObj [(''type'', JStr ''api_key''), (''provider'', JStr ''anthropic''),
                         (''key'', JStr ''sk-0'')])]),
                (''order'', JObj [(''openai'', JArr [JStr ''openai:default''])])]))
             else None)))
   \<and> stored_order
       (snd (saveProviderKeyToOpenClaw None ''openai'' ''sk-2'' ''main''
          (\<lambda>path. if path = getAuthProfilesPath ''main''
             then Some (Content (JObj
               [(''version'', JNum 1),
                (''profiles'', JObj [(''anthropic:default'',
                   JObj [(''type'', JStr ''api_key''), (''provider'', JStr ''anthropic''),
                         (''key'', JStr ''sk-0'')])]),
                (''order'', JObj [(''openai'', JArr [JStr ''openai:default''])])]))
             else None)))
       ''main'' ''openai''
     = [JStr ''openai:default'']"
proof -
  let ?d = "\<lambda>path. if path = getAuthProfilesPath ''main''
             then Some (Content (JObj
               [(''version'', JNum 1),
                (''profiles'', JObj [(''anthropic:default'',
                   JObj [(''type'', JStr ''api_key''), (''provider'', JStr ''anthropic''),
                         (''key'', JStr ''sk-0'')])]),
                (''order'', JObj [(''openai'', JArr [JStr ''openai:default''])])]))
             else None"
  have t: "typed_file ''openai'' (?d (getAuthProfilesPath ''main''))"
    by (simp add: typed_file_def typed_store_def)
  have o: "stored_order ?d ''main'' ''openai'' = [JStr ''openai:default'']"
    by (simp add: stored_order_def readAuthProfiles_def own_def)
  show ?thesis
    using save_idempotent [where prov = "''openai''" and d = ?d and a = "''main''" and k = "''sk-2''",
        OF openai_no_prototype_key t] t o openai_no_prototype_key
    by simp
qed

end
